theory Spec2Isabelle
  imports Main "HOL-Library.Word"
begin

unbundle bit_operations_syntax

section \<open>The event payload decoder of etw/etw.py (class EventConsumer)\<close>

text \<open>
  A shallow embedding of the methods of \<^verbatim>\<open>EventConsumer\<close> that decode one event record:
  \<^verbatim>\<open>_getEventInformation\<close>, \<^verbatim>\<open>_getArraySize\<close>, \<^verbatim>\<open>_getPropertyLength\<close>,
  \<^verbatim>\<open>_getMapInfo\<close>, \<^verbatim>\<open>_handleEvtInvalidEvtData\<close>, \<^verbatim>\<open>_unpackSimpleType\<close>,
  \<^verbatim>\<open>_unpackComplexType\<close> and \<^verbatim>\<open>_processEvent\<close>.

  Conventions of the embedding.
  \<^item> A Python exception is a value of type \<open>error\<close>; a method that can raise returns
    \<open>error + 'a\<close> (\<open>Inl\<close> the exception).
  \<^item> The attributes of \<^verbatim>\<open>self\<close> that the methods read and write are the record
    \<open>EventConsumer\<close>; a method that mutates \<^verbatim>\<open>self\<close> takes the record and returns the
    updated one, also when it raises (the mutation done before the raise stays).
  \<^item> The calls a method makes to \<^verbatim>\<open>tdh.TdhFormatProperty\<close> and to the user's callback are
    returned as a list of \<open>call\<close>s, in the order made.
  \<^item> The Windows functions and the constants of the modules \<^verbatim>\<open>tdh\<close>, \<^verbatim>\<open>evntcons\<close> and
    \<^verbatim>\<open>common\<close>, which are not part of the sources at hand, are the fields of the record
    \<open>env\<close>, a parameter of every method.
  \<^item> A string is a list of characters, one for each code point; the model has the code
    points below 256. The methods \<^verbatim>\<open>str.strip\<close>, \<^verbatim>\<open>str.upper\<close> and \<^verbatim>\<open>str.lower\<close> of the Python
    runtime follow the Unicode tables; they are fields of \<open>env\<close> too.
\<close>

subsection \<open>Python values and exceptions\<close>

type_synonym status = nat

datatype error =
    WinError "status option"   \<comment> \<open>\<^verbatim>\<open>ct.WinError()\<close> is \<open>WinError None\<close>, \<^verbatim>\<open>ct.WinError(status)\<close> is \<open>WinError (Some status)\<close>\<close>
  | ETWException string
  | ValueError
  | TypeError

text \<open>A ctypes pointer instance: the NULL pointer, or a pointer to a value.\<close>

datatype 'a pointer = NULL | Ptr 'a

datatype pyvalue =
    PyNone
  | PyInt int
  | PyStr string
  | PyBytes "8 word list"
  | PyDict "(string \<times> pyvalue) list"

text \<open>A dict keeps its keys in insertion order: an association list without repeated keys.\<close>

type_synonym pydict = "(string \<times> pyvalue) list"

text \<open>\<^verbatim>\<open>d[k] = v\<close>: an existing key keeps its place and takes the new value, a new key goes last.\<close>

fun dict_set :: "('k \<times> 'v) list \<Rightarrow> 'k \<Rightarrow> 'v \<Rightarrow> ('k \<times> 'v) list" where
  "dict_set [] k v = [(k, v)]"
| "dict_set ((k', v') # d) k v = (if k' = k then (k, v) # d else (k', v') # dict_set d k v)"

text \<open>\<^verbatim>\<open>d.update(e)\<close>: the entries of \<open>e\<close> are set one by one, in \<open>e\<close>'s order.\<close>

fun dict_update :: "('k \<times> 'v) list \<Rightarrow> ('k \<times> 'v) list \<Rightarrow> ('k \<times> 'v) list" where
  "dict_update d [] = d"
| "dict_update d ((k, v) # e) = dict_update (dict_set d k v) e"

text \<open>
  \<^verbatim>\<open>key, value = d\<close> for a dict \<open>d\<close>: the unpacking iterates over the keys of \<open>d\<close> and
  raises ValueError unless there are exactly two of them.
\<close>

definition unpack_pair :: "('k \<times> 'v) list \<Rightarrow> error + ('k \<times> 'k)" where
  "unpack_pair d = (case map fst d of [a, b] \<Rightarrow> Inr (a, b) | _ \<Rightarrow> Inl ValueError)"

subsection \<open>String methods\<close>

definition endswith :: "string \<Rightarrow> string \<Rightarrow> bool" where
  "endswith s suffix =
     (length suffix \<le> length s \<and> drop (length s - length suffix) s = suffix)"

text \<open>
  \<^verbatim>\<open>int(x, 10)\<close> of Python 3 on a string or a bytes object. White space around the number
  is dropped: the six ASCII white space characters. One sign is allowed, then decimal
  digits, where a single \<^verbatim>\<open>_\<close> may stand between two digits. Anything else is a ValueError.
\<close>

definition ascii_isspace :: "char \<Rightarrow> bool" where
  "ascii_isspace c = (c \<in> set [CHR 0x20, CHR 0x09, CHR 0x0A, CHR 0x0B, CHR 0x0C, CHR 0x0D])"

definition digit_val :: "char \<Rightarrow> int option" where
  "digit_val c = map_of (zip ''0123456789'' [0, 1, 2, 3, 4, 5, 6, 7, 8, 9]) c"

text \<open>The flag says whether the character before was a digit.\<close>

fun digits_val :: "int \<Rightarrow> bool \<Rightarrow> string \<Rightarrow> int option" where
  "digits_val acc after_digit [] = (if after_digit then Some acc else None)"
| "digits_val acc after_digit (c # cs) =
     (if c = CHR ''_'' then (if after_digit then digits_val acc False cs else None)
      else (case digit_val c of
              None \<Rightarrow> None
            | Some d \<Rightarrow> digits_val (10 * acc + d) True cs))"

definition int_of_string :: "string \<Rightarrow> error + int" where
  "int_of_string s =
     (let t = rev (dropWhile ascii_isspace (rev (dropWhile ascii_isspace s)));
          (neg, ds) = (case t of
                         c # cs \<Rightarrow> if c = CHR ''-'' then (True, cs)
                                   else if c = CHR ''+'' then (False, cs) else (False, t)
                       | [] \<Rightarrow> (False, t))
      in case digits_val 0 False ds of
           None \<Rightarrow> Inl ValueError
         | Some n \<Rightarrow> Inr (if neg then - n else n))"

text \<open>
  \<^verbatim>\<open>int(x, 10)\<close> on the values that \<^verbatim>\<open>formatted_data.value\<close> can be: \<^verbatim>\<open>None\<close> (the value of a
  NULL \<^verbatim>\<open>LPWSTR\<close>) raises TypeError; a bytes object is parsed as it is; in a string the
  white space characters beyond ASCII (of the code points below 256: U+0085 and U+00A0)
  count as spaces.
\<close>

fun py_int :: "pyvalue \<Rightarrow> error + int" where
  "py_int (PyStr s) =
     int_of_string (map (\<lambda>c. if c = CHR 0x85 \<or> c = CHR 0xA0 then CHR 0x20 else c) s)"
| "py_int (PyBytes bs) = int_of_string (map (\<lambda>b. char_of (unat b)) bs)"
| "py_int _ = Inl TypeError"

subsection \<open>The structures of the tracing interface\<close>

text \<open>
  \<^verbatim>\<open>EVENT_PROPERTY_INFO\<close>, with the members the decoder reads. The members of the unions
  \<^verbatim>\<open>epi_u1\<close>, \<^verbatim>\<open>epi_u2\<close> and \<^verbatim>\<open>epi_u3\<close> are separate fields here.
\<close>

record EVENT_PROPERTY_INFO =
  Flags :: int
  NameOffset :: nat
  InType :: nat
  OutType :: nat
  MapNameOffset :: nat
  StructStartIndex :: nat
  NumOfStructMembers :: nat
  epi_u2_count :: nat
  epi_u2_countPropertyIndex :: nat
  epi_u3_length :: nat

text \<open>
  \<^verbatim>\<open>TRACE_EVENT_INFO\<close>. \<open>EventPropertyInfoArray\<close> is read through a pointer, so it has an
  entry at every index. \<open>strings\<close> gives the string stored at each offset of the block.
\<close>

record TRACE_EVENT_INFO =
  ProviderNameOffset :: nat
  TaskNameOffset :: nat
  EventMessageOffset :: nat
  EventDescriptor_Id :: nat
  TopLevelPropertyCount :: nat
  EventPropertyInfoArray :: "nat \<Rightarrow> EVENT_PROPERTY_INFO"
  strings :: "nat \<Rightarrow> string"

text \<open>
  Modelled from the spec: \<^verbatim>\<open>rel_ptr_to_str\<close> of etw/common.py is not among the sources. It
  reads the string at a relative offset of the metadata block (field names, task name,
  provider name, event message template).
\<close>

definition rel_ptr_to_str :: "TRACE_EVENT_INFO \<Rightarrow> nat \<Rightarrow> string" where
  "rel_ptr_to_str info offset = strings info offset"

text \<open>\<^verbatim>\<open>EVENT_RECORD\<close>: the header fields that \<^verbatim>\<open>_processEvent\<close> copies, and the payload.\<close>

record EVENT_RECORD =
  Header_Size :: nat
  Header_HeaderType :: nat
  Header_Flags :: int
  Header_EventProperty :: nat
  Header_ThreadId :: nat
  Header_ProcessId :: nat
  Header_TimeStamp :: int
  Header_ProviderId :: string   \<comment> \<open>\<^verbatim>\<open>str(ProviderId)\<close>\<close>
  Header_Id :: nat
  Header_Version :: nat
  Header_Channel :: nat
  Header_Level :: nat
  Header_Opcode :: nat
  Header_Task :: nat
  Header_Keyword :: nat
  Header_KernelTime :: nat
  Header_UserTime :: nat
  Header_ActivityId :: string   \<comment> \<open>\<^verbatim>\<open>str(ActivityId)\<close>\<close>
  UserData :: "nat option"      \<comment> \<open>a \<^verbatim>\<open>c_void_p\<close> member reads as \<^verbatim>\<open>None\<close> when NULL\<close>
  UserDataLength :: "16 word"   \<comment> \<open>\<^verbatim>\<open>USHORT\<close>\<close>

record PROPERTY_DATA_DESCRIPTOR =
  PropertyName :: string   \<comment> \<open>the string the pointer \<^verbatim>\<open>PropertyName\<close> points to\<close>
  ArrayIndex :: nat

type_synonym EVENT_MAP_INFO = "8 word list"

text \<open>The arguments of one call of \<^verbatim>\<open>TdhFormatProperty\<close> (metadata and map info apart).\<close>

record format_request =
  PointerSize :: nat
  PropertyInType :: nat
  PropertyOutType :: nat
  PropertyLength :: nat      \<comment> \<open>a \<^verbatim>\<open>c_ushort\<close>\<close>
  UserDataLength_arg :: nat
  UserData_arg :: nat        \<comment> \<open>address of the first unread payload byte\<close>
  BufferSize :: nat
  Buffer :: bool             \<comment> \<open>\<open>False\<close>: the call passes \<^verbatim>\<open>None\<close> as the buffer\<close>

datatype call =
    FormatProperty format_request
  | Callback nat pydict       \<comment> \<open>\<^verbatim>\<open>self.event_callback((event_id, out))\<close>\<close>

subsection \<open>The environment: Windows functions and module constants\<close>

text \<open>
  The modules etw/tdh.py, etw/evntcons.py and etw/common.py are not among the sources.
  Their constants and the Windows functions they wrap are parameters: the fields of
  \<open>env\<close>. Each function returns its status first, then what it writes through its output
  arguments. \<open>memory\<close> is the process memory that \<^verbatim>\<open>ct.memmove\<close> reads. \<open>str_strip\<close>,
  \<open>str_upper\<close> and \<open>str_lower\<close> are the methods \<^verbatim>\<open>strip()\<close>, \<^verbatim>\<open>upper()\<close> and \<^verbatim>\<open>lower()\<close> of
  \<^verbatim>\<open>str\<close>.
\<close>

record env =
  ERROR_SUCCESS :: status
  ERROR_INSUFFICIENT_BUFFER :: status
  ERROR_NOT_FOUND :: status
  ERROR_EVT_INVALID_EVENT_DATA :: status
  PropertyStruct :: int
  PropertyParamLength :: int
  PropertyParamCount :: int
  PropertyParamFixedCount :: int
  TDH_INTYPE_BINARY :: nat
  TDH_OUTTYPE_IPV6 :: nat
  EVENT_HEADER_FLAG_32_BIT_HEADER :: int
  MAX_UINT :: nat
  TDH_CONVERTER_LOOKUP :: "nat \<Rightarrow> (pyvalue \<Rightarrow> error + pyvalue) option"
  TdhGetEventInformation ::
    "EVENT_RECORD \<Rightarrow> nat option \<Rightarrow> status \<times> nat \<times> TRACE_EVENT_INFO"
  TdhGetPropertySize :: "EVENT_RECORD \<Rightarrow> PROPERTY_DATA_DESCRIPTOR \<Rightarrow> status \<times> nat"
  TdhGetProperty :: "EVENT_RECORD \<Rightarrow> PROPERTY_DATA_DESCRIPTOR \<Rightarrow> nat \<Rightarrow> status \<times> 32 word"
  TdhGetEventMapInformation ::
    "EVENT_RECORD \<Rightarrow> string \<Rightarrow> nat option \<Rightarrow> status \<times> nat \<times> EVENT_MAP_INFO"
  TdhFormatProperty ::
    "TRACE_EVENT_INFO \<Rightarrow> EVENT_MAP_INFO pointer option \<Rightarrow> format_request
       \<Rightarrow> status \<times> nat \<times> string \<times> 16 word"
  memory :: "nat \<Rightarrow> 8 word"
  str_strip :: "string \<Rightarrow> string"
  str_upper :: "string \<Rightarrow> string"
  str_lower :: "string \<Rightarrow> string"

text \<open>
  Modelled from the spec: etw/in6addr.py is not among the sources. The spec gives the size
  of the address type as 16 bytes.
\<close>

definition sizeof_IN6_ADDR :: nat where
  "sizeof_IN6_ADDR = 16"

text \<open>\<^verbatim>\<open>ct.sizeof(ct.c_wchar)\<close> on Windows, the only platform of these functions.\<close>

definition sizeof_c_wchar :: nat where
  "sizeof_c_wchar = 2"

subsection \<open>The consumer's state\<close>

record EventConsumer =
  event_callback :: bool          \<comment> \<open>whether a callback is set (\<^verbatim>\<open>if self.event_callback\<close>)\<close>
  vfield_length :: "int option"
  index :: nat
  task_name_filters :: "string list"

subsection \<open>Metadata, sizes and map info\<close>

text \<open>
  \<^verbatim>\<open>_getEventInformation\<close>: \<open>Inr None\<close> is the return value \<^verbatim>\<open>None\<close>. When the first call
  already succeeds, the pointer returned is the NULL pointer the method started with.
\<close>

definition getEventInformation ::
  "env \<Rightarrow> EVENT_RECORD \<Rightarrow> error + TRACE_EVENT_INFO pointer option" where
  "getEventInformation w record =
     (case TdhGetEventInformation w record None of
        (status1, buffer_size, _) \<Rightarrow>
          (let (status, info) =
                 (if ERROR_INSUFFICIENT_BUFFER w = status1
                  then (case TdhGetEventInformation w record (Some buffer_size) of
                          (status2, _, contents) \<Rightarrow> (status2, Ptr contents))
                  else (status1, NULL))
           in if ERROR_NOT_FOUND w = status then Inr None
              else if ERROR_SUCCESS w \<noteq> status then Inl (WinError None)
              else Inr (Some info)))"

text \<open>
  \<^verbatim>\<open>_getArraySize\<close>. In the branch of \<^verbatim>\<open>PropertyParamCount\<close> the first statement that can
  fail is \<^verbatim>\<open>data_descriptor.PropertyName = info + event_property_array[j].NameOffset\<close>:
  \<^verbatim>\<open>info\<close> is a ctypes pointer instance, which has no addition, so the statement raises
  TypeError and the two Windows calls after it are never made. (\<^verbatim>\<open>_getPropertyLength\<close>
  casts \<^verbatim>\<open>info\<close> to an address first.)
\<close>

definition getArraySize ::
  "env \<Rightarrow> EVENT_RECORD \<Rightarrow> TRACE_EVENT_INFO \<Rightarrow> EVENT_PROPERTY_INFO \<Rightarrow> error + nat option" where
  "getArraySize w record info event_property =
     (let flags = Flags event_property
      in if flags AND PropertyParamCount w \<noteq> 0 then Inl TypeError
         else if flags AND PropertyParamFixedCount w \<noteq> 0
           then Inl (ETWException ''PropertyParamFixedCount not supported'')
         else Inr (Some (epi_u2_count event_property)))"

text \<open>
  \<^verbatim>\<open>_getPropertyLength\<close>. With \<^verbatim>\<open>PropertyParamLength\<close> the member \<^verbatim>\<open>epi_u3.length\<close> is the
  index of the property that holds the length, which is read with \<^verbatim>\<open>TdhGetPropertySize\<close>
  and \<^verbatim>\<open>TdhGetProperty\<close>.
\<close>

definition getPropertyLength ::
  "env \<Rightarrow> EVENT_RECORD \<Rightarrow> TRACE_EVENT_INFO \<Rightarrow> EVENT_PROPERTY_INFO \<Rightarrow> error + int option" where
  "getPropertyLength w record info event_property =
     (let flags = Flags event_property
      in if flags AND PropertyParamLength w \<noteq> 0 then
           (let j = epi_u3_length event_property;
                data_descriptor =
                  \<lparr>PropertyName = rel_ptr_to_str info (NameOffset (EventPropertyInfoArray info j)),
                   ArrayIndex = MAX_UINT w\<rparr>
            in case TdhGetPropertySize w record data_descriptor of
                 (status1, property_size) \<Rightarrow>
                   if ERROR_SUCCESS w \<noteq> status1 then Inl (WinError None)
                   else (case TdhGetProperty w record data_descriptor property_size of
                           (status2, len) \<Rightarrow>
                             if ERROR_SUCCESS w \<noteq> status2 then Inl (WinError None)
                             else Inr (Some (uint len))))
         else
           (let in_type = InType event_property;
                out_type = OutType event_property
            in if in_type = TDH_INTYPE_BINARY w \<and> out_type = TDH_OUTTYPE_IPV6 w
               then Inr (Some (int sizeof_IN6_ADDR))
               else Inr (Some (int (epi_u3_length event_property)))))"

text \<open>
  \<^verbatim>\<open>_getMapInfo\<close>: the pair of the map pointer (or \<^verbatim>\<open>None\<close>) and the success flag.
\<close>

definition getMapInfo ::
  "env \<Rightarrow> EVENT_RECORD \<Rightarrow> TRACE_EVENT_INFO \<Rightarrow> EVENT_PROPERTY_INFO
     \<Rightarrow> error + (EVENT_MAP_INFO pointer option \<times> bool)" where
  "getMapInfo w record info event_property =
     (let map_name = rel_ptr_to_str info (MapNameOffset event_property)
      in case TdhGetEventMapInformation w record map_name None of
           (status1, map_size, _) \<Rightarrow>
             (let (status, map_info) =
                    (if ERROR_INSUFFICIENT_BUFFER w = status1
                     then (case TdhGetEventMapInformation w record map_name (Some map_size) of
                             (status2, _, contents) \<Rightarrow> (status2, Ptr contents))
                     else (status1, NULL))
              in if ERROR_SUCCESS w = status then Inr (Some map_info, True)
                 else if ERROR_NOT_FOUND w = status then Inr (None, True)
                 else Inl (WinError None)))"

subsection \<open>Decoding one scalar field\<close>

text \<open>
  What \<^verbatim>\<open>formatted_data\<close> can be: the \<^verbatim>\<open>LPWSTR\<close> that \<^verbatim>\<open>TdhFormatProperty\<close> filled (NULL when no
  buffer was ever allocated), or the \<^verbatim>\<open>c_char\<close> array of the fragment recovery.
\<close>

datatype formatted_data = LPWSTR "string pointer" | c_char_Array "8 word list"

text \<open>
  \<^verbatim>\<open>formatted_data.value\<close>: \<^verbatim>\<open>None\<close> for the NULL pointer, the string for a filled buffer, the
  bytes before the first zero byte for a \<^verbatim>\<open>c_char\<close> array.
\<close>

fun formatted_value :: "formatted_data \<Rightarrow> pyvalue" where
  "formatted_value (LPWSTR NULL) = PyNone"
| "formatted_value (LPWSTR (Ptr s)) = PyStr s"
| "formatted_value (c_char_Array bs) = PyBytes (takeWhile (\<lambda>b. b \<noteq> 0) bs)"

text \<open>
  \<^verbatim>\<open>_handleEvtInvalidEvtData\<close>: a zeroed buffer of \<^verbatim>\<open>user_data_remaining + sizeof(c_wchar)\<close>
  bytes, the first \<^verbatim>\<open>user_data_remaining\<close> of them copied from the address \<^verbatim>\<open>user_data\<close>, and
  \<^verbatim>\<open>c_ushort(user_data_remaining)\<close>. The caller passes a positive \<^verbatim>\<open>user_data_remaining\<close>.
\<close>

definition handleEvtInvalidEvtData :: "env \<Rightarrow> nat \<Rightarrow> nat \<Rightarrow> 16 word \<times> formatted_data" where
  "handleEvtInvalidEvtData w user_data user_data_remaining =
     (let buf = map (\<lambda>k. memory w (user_data + k)) [0..<user_data_remaining]
                  @ replicate sizeof_c_wchar 0;
          user_data_consumed = (of_nat user_data_remaining :: 16 word)
      in (user_data_consumed, c_char_Array buf))"

text \<open>
  The \<^verbatim>\<open>try\<close> block of \<^verbatim>\<open>_unpackSimpleType\<close>: \<^verbatim>\<open>int(formatted_data.value, 10)\<close>, with \<^verbatim>\<open>None\<close> for a
  ValueError. Any other exception is not caught.
\<close>

definition try_int :: "pyvalue \<Rightarrow> error + int option" where
  "try_int v =
     (case py_int v of
        Inr n \<Rightarrow> Inr (Some n)
      | Inl e \<Rightarrow> if e = ValueError then Inr None else Inl e)"

text \<open>
  Lines 477 to 505 of \<^verbatim>\<open>_unpackSimpleType\<close>: the call of \<^verbatim>\<open>TdhFormatProperty\<close> without a
  buffer and, when it answers \<^verbatim>\<open>ERROR_INSUFFICIENT_BUFFER\<close>, the second call with a buffer of
  the size asked for. The result is the last status, \<^verbatim>\<open>formatted_data\<close>,
  \<^verbatim>\<open>user_data_consumed\<close> and the calls made.
\<close>

definition formatProperty ::
  "env \<Rightarrow> TRACE_EVENT_INFO \<Rightarrow> EVENT_MAP_INFO pointer option \<Rightarrow> format_request
     \<Rightarrow> status \<times> formatted_data \<times> 16 word \<times> call list" where
  "formatProperty w info map_info request =
     (case TdhFormatProperty w info map_info request of
        (status1, formatted_data_size, _, consumed1) \<Rightarrow>
          if status1 = ERROR_INSUFFICIENT_BUFFER w
          then (let request2 = request\<lparr>BufferSize := formatted_data_size, Buffer := True\<rparr>
                in case TdhFormatProperty w info map_info request2 of
                     (status2, _, text, consumed2) \<Rightarrow>
                       (status2, LPWSTR (Ptr text), consumed2,
                        [FormatProperty request, FormatProperty request2]))
          else (status1, LPWSTR NULL, consumed1, [FormatProperty request]))"

text \<open>
  Lines 463 to 529 of \<^verbatim>\<open>_unpackSimpleType\<close>: from the computation of \<^verbatim>\<open>user_data\<close> to the
  return of the formatted value, for the \<^verbatim>\<open>property_length\<close> the lines before have settled.
  \<^verbatim>\<open>record.contents.UserData + self.index\<close> raises TypeError when \<^verbatim>\<open>UserData\<close> is \<^verbatim>\<open>None\<close>.
  \<^verbatim>\<open>ct.c_ushort(property_length)\<close> keeps the low 16 bits.
\<close>

definition formatSimpleType ::
  "env \<Rightarrow> EVENT_RECORD \<Rightarrow> TRACE_EVENT_INFO \<Rightarrow> EVENT_PROPERTY_INFO
     \<Rightarrow> EVENT_MAP_INFO pointer option \<Rightarrow> nat \<Rightarrow> string \<Rightarrow> int \<Rightarrow> EventConsumer
     \<Rightarrow> (error + pydict) \<times> EventConsumer \<times> call list" where
  "formatSimpleType w record info event_property map_info ptr_size name_field property_length self =
     (case UserData record of
        None \<Rightarrow> (Inl TypeError, self, [])
      | Some base \<Rightarrow>
          (let user_data = base + index self;
               user_data_remaining = uint (UserDataLength record) - int (index self)
           in if user_data_remaining \<le> 0 then (Inr [], self, [])
              else
                (let in_type = InType event_property;
                     out_type = OutType event_property;
                     request = \<lparr>PointerSize = ptr_size, PropertyInType = in_type,
                                PropertyOutType = out_type,
                                PropertyLength = nat (property_length mod 65536),
                                UserDataLength_arg = nat user_data_remaining,
                                UserData_arg = user_data, BufferSize = 0, Buffer = False\<rparr>
                 in case formatProperty w info map_info request of
                      (status, formatted, consumed, calls) \<Rightarrow>
                        if status \<noteq> ERROR_SUCCESS w \<and> status \<noteq> ERROR_EVT_INVALID_EVENT_DATA w
                        then (Inl (WinError (Some status)), self, calls)
                        else
                          (let (user_data_consumed, formatted_data) =
                                 (if status \<noteq> ERROR_SUCCESS w
                                  then handleEvtInvalidEvtData w user_data (nat user_data_remaining)
                                  else (consumed, formatted));
                               self1 = self\<lparr>index := index self + unat user_data_consumed\<rparr>
                           in case (if endswith (str_lower w name_field) ''length''
                                    then try_int (formatted_value formatted_data)
                                    else Inr (vfield_length self1)) of
                                Inl e \<Rightarrow> (Inl e, self1, calls)
                              | Inr v \<Rightarrow>
                                  (let self2 = self1\<lparr>vfield_length := v\<rparr>;
                                       data = formatted_value formatted_data
                                   in case TDH_CONVERTER_LOOKUP w out_type of
                                        None \<Rightarrow> (Inr [(name_field, data)], self2, calls)
                                      | Some converter \<Rightarrow>
                                          (case converter data of
                                             Inl e \<Rightarrow> (Inl e, self2, calls)
                                           | Inr converted \<Rightarrow>
                                               (Inr [(name_field, converted)], self2, calls)))))))"

text \<open>
  \<^verbatim>\<open>_unpackSimpleType\<close>. The result \<open>Inr []\<close> is the empty dict \<^verbatim>\<open>{}\<close>; \<open>Inr [(name, PyNone)]\<close> is
  \<^verbatim>\<open>{name_field: None}\<close>.
\<close>

definition unpackSimpleType ::
  "env \<Rightarrow> EVENT_RECORD \<Rightarrow> TRACE_EVENT_INFO \<Rightarrow> EVENT_PROPERTY_INFO \<Rightarrow> EventConsumer
     \<Rightarrow> (error + pydict) \<times> EventConsumer \<times> call list" where
  "unpackSimpleType w record info event_property self =
     (case getMapInfo w record info event_property of
        Inl e \<Rightarrow> (Inl e, self, [])
      | Inr (map_info, success) \<Rightarrow>
          if \<not> success then (Inr [], self, [])
          else
            (case getPropertyLength w record info event_property of
               Inl e \<Rightarrow> (Inl e, self, [])
             | Inr None \<Rightarrow> (Inr [], self, [])
             | Inr (Some property_length) \<Rightarrow>
                 (let ptr_size =
                        (if Header_Flags record AND EVENT_HEADER_FLAG_32_BIT_HEADER w \<noteq> 0
                         then 4 else 8);
                      name_field = rel_ptr_to_str info (NameOffset event_property)
                  in case vfield_length self of
                       None \<Rightarrow>
                         formatSimpleType w record info event_property map_info ptr_size
                           name_field property_length self
                     | Some pending \<Rightarrow>
                         if property_length = 0 then
                           (if pending = 0
                            then (Inr [(name_field, PyNone)], self\<lparr>vfield_length := None\<rparr>, [])
                            else formatSimpleType w record info event_property map_info ptr_size
                                   name_field pending self)
                         else formatSimpleType w record info event_property map_info ptr_size
                                name_field property_length self)))"

subsection \<open>Decoding one structure field\<close>

text \<open>
  The inner loop of \<^verbatim>\<open>_unpackComplexType\<close>, over the member indices \<^verbatim>\<open>j\<close>. The statement
  \<^verbatim>\<open>key, value = self._unpackSimpleType(...)\<close> unpacks the returned dict. The test
  \<^verbatim>\<open>key is None and value is None\<close> is about two keys of a dict of field names, which are
  strings, so the \<^verbatim>\<open>break\<close> is never taken.
\<close>

fun unpackComplexType_members ::
  "env \<Rightarrow> EVENT_RECORD \<Rightarrow> TRACE_EVENT_INFO \<Rightarrow> nat list \<Rightarrow> pydict \<Rightarrow> EventConsumer
     \<Rightarrow> (error + pydict) \<times> EventConsumer \<times> call list" where
  "unpackComplexType_members w record info [] out self = (Inr out, self, [])"
| "unpackComplexType_members w record info (j # js) out self =
     (case unpackSimpleType w record info (EventPropertyInfoArray info j) self of
        (Inl e, self1, calls) \<Rightarrow> (Inl e, self1, calls)
      | (Inr d, self1, calls) \<Rightarrow>
          (case unpack_pair d of
             Inl e \<Rightarrow> (Inl e, self1, calls)
           | Inr (key, val) \<Rightarrow>
               (case unpackComplexType_members w record info js
                       (dict_set out key (PyStr val)) self1 of
                  (r, self2, calls2) \<Rightarrow> (r, self2, calls @ calls2))))"

text \<open>The outer loop, over the elements \<^verbatim>\<open>i\<close> of the array.\<close>

fun unpackComplexType_elements ::
  "env \<Rightarrow> EVENT_RECORD \<Rightarrow> TRACE_EVENT_INFO \<Rightarrow> EVENT_PROPERTY_INFO \<Rightarrow> nat list \<Rightarrow> pydict
     \<Rightarrow> EventConsumer \<Rightarrow> (error + pydict) \<times> EventConsumer \<times> call list" where
  "unpackComplexType_elements w record info event_property [] out self = (Inr out, self, [])"
| "unpackComplexType_elements w record info event_property (i # is) out self =
     (let start_index = StructStartIndex event_property;
          last_member = start_index + NumOfStructMembers event_property
      in case unpackComplexType_members w record info [start_index..<last_member] out self of
           (Inl e, self1, calls) \<Rightarrow> (Inl e, self1, calls)
         | (Inr out1, self1, calls) \<Rightarrow>
             (case unpackComplexType_elements w record info event_property is out1 self1 of
                (r, self2, calls2) \<Rightarrow> (r, self2, calls @ calls2)))"

definition unpackComplexType ::
  "env \<Rightarrow> EVENT_RECORD \<Rightarrow> TRACE_EVENT_INFO \<Rightarrow> EVENT_PROPERTY_INFO \<Rightarrow> EventConsumer
     \<Rightarrow> (error + pydict) \<times> EventConsumer \<times> call list" where
  "unpackComplexType w record info event_property self =
     (case getArraySize w record info event_property of
        Inl e \<Rightarrow> (Inl e, self, [])
      | Inr None \<Rightarrow> (Inr [], self, [])
      | Inr (Some array_size) \<Rightarrow>
          unpackComplexType_elements w record info event_property [0..<array_size] [] self)"

subsection \<open>Decoding one record\<close>

text \<open>The \<^verbatim>\<open>EventHeader\<close> entry that \<^verbatim>\<open>_processEvent\<close> starts the output with.\<close>

definition EventHeader :: "EVENT_RECORD \<Rightarrow> pydict" where
  "EventHeader record =
     [(''Size'', PyInt (int (Header_Size record))),
      (''HeaderType'', PyInt (int (Header_HeaderType record))),
      (''Flags'', PyInt (Header_Flags record)),
      (''EventProperty'', PyInt (int (Header_EventProperty record))),
      (''ThreadId'', PyInt (int (Header_ThreadId record))),
      (''ProcessId'', PyInt (int (Header_ProcessId record))),
      (''TimeStamp'', PyInt (Header_TimeStamp record)),
      (''ProviderId'', PyStr (Header_ProviderId record)),
      (''EventDescriptor'', PyDict
         [(''Id'', PyInt (int (Header_Id record))),
          (''Version'', PyInt (int (Header_Version record))),
          (''Channel'', PyInt (int (Header_Channel record))),
          (''Level'', PyInt (int (Header_Level record))),
          (''Opcode'', PyInt (int (Header_Opcode record))),
          (''Task'', PyInt (int (Header_Task record))),
          (''Keyword'', PyInt (int (Header_Keyword record)))]),
      (''KernelTime'', PyInt (int (Header_KernelTime record))),
      (''UserTime'', PyInt (int (Header_UserTime record))),
      (''ActivityId'', PyStr (Header_ActivityId record))]"

text \<open>
  The loop of \<^verbatim>\<open>_processEvent\<close> over the top-level properties. \<^verbatim>\<open>user_data\<close> and
  \<^verbatim>\<open>end_of_user_data\<close> are the two local variables set before the loop; the loop does not
  assign them.
\<close>

fun processEvent_properties ::
  "env \<Rightarrow> EVENT_RECORD \<Rightarrow> TRACE_EVENT_INFO \<Rightarrow> nat \<Rightarrow> nat \<Rightarrow> nat list \<Rightarrow> pydict
     \<Rightarrow> EventConsumer \<Rightarrow> (error + pydict) \<times> EventConsumer \<times> call list" where
  "processEvent_properties w record info user_data end_of_user_data [] out self =
     (Inr out, self, [])"
| "processEvent_properties w record info user_data end_of_user_data (i # is) out self =
     (if user_data = end_of_user_data then (Inr out, self, [])
      else
        (let property = EventPropertyInfoArray info i
         in case (if Flags property AND PropertyStruct w \<noteq> 0
                  then unpackComplexType w record info property self
                  else unpackSimpleType w record info property self) of
              (Inl e, self1, calls) \<Rightarrow> (Inl e, self1, calls)
            | (Inr d, self1, calls) \<Rightarrow>
                (case processEvent_properties w record info user_data end_of_user_data is
                        (dict_update out d) self1 of
                   (r, self2, calls2) \<Rightarrow> (r, self2, calls @ calls2))))"

text \<open>
  The task name that \<^verbatim>\<open>_processEvent\<close> derives and filters on:
  \<^verbatim>\<open>task_name.strip().upper()\<close>.
\<close>

definition task_name_of :: "env \<Rightarrow> TRACE_EVENT_INFO \<Rightarrow> string" where
  "task_name_of w info =
     str_upper w (str_strip w (if TaskNameOffset info = 0
                   then rel_ptr_to_str info (ProviderNameOffset info)
                   else rel_ptr_to_str info (TaskNameOffset info)))"

text \<open>
  \<^verbatim>\<open>_processEvent\<close>. It returns nothing; its output is the argument of the callback, a
  \<open>Callback\<close> in the list of calls. \<^verbatim>\<open>info.contents\<close> of a NULL pointer raises ValueError.
\<close>

definition processEvent ::
  "env \<Rightarrow> EVENT_RECORD \<Rightarrow> EventConsumer \<Rightarrow> (error + unit) \<times> EventConsumer \<times> call list" where
  "processEvent w record self =
     (case getEventInformation w record of
        Inl e \<Rightarrow> (Inl e, self, [])
      | Inr None \<Rightarrow> (Inr (), self, [])
      | Inr (Some NULL) \<Rightarrow> (Inl ValueError, self, [])
      | Inr (Some (Ptr info)) \<Rightarrow>
          (let task_name = task_name_of w info;
               description = rel_ptr_to_str info (EventMessageOffset info);
               event_id = EventDescriptor_Id info
           in if task_name_filters self \<noteq> [] \<and> task_name \<notin> set (task_name_filters self)
              then (Inr (), self, [])
              else
                (let out = [(''EventHeader'', PyDict (EventHeader record))];
                     user_data = (case UserData record of None \<Rightarrow> 0 | Some p \<Rightarrow> p);
                     end_of_user_data = user_data + unat (UserDataLength record);
                     self0 = self\<lparr>index := 0, vfield_length := None\<rparr>
                 in case processEvent_properties w record info user_data end_of_user_data
                           [0..<TopLevelPropertyCount info] out self0 of
                      (Inl e, self1, calls) \<Rightarrow> (Inl e, self1, calls)
                    | (Inr out1, self1, calls) \<Rightarrow>
                        (let out2 = dict_set (dict_set out1 ''Description'' (PyStr description))
                                      ''Task Name'' (PyStr task_name)
                         in if event_callback self1
                            then (Inr (), self1, calls @ [Callback event_id out2])
                            else (Inr (), self1, calls)))))"

subsection \<open>A sample session\<close>

text \<open>
  A concrete environment for the examples: the constants have the values of the Windows
  SDK headers (winerror.h, tdh.h, evntcons.h). The sample formatter renders a field as the
  text \<open>0\<close> when its first byte is zero and as \<open>12\<close> otherwise, asks for a buffer first, and
  reports invalid event data when the length it is given overruns the bytes that remain.
\<close>

text \<open>
  The string methods of the sample environment, for strings of code points below 256:
  white space and case pairs as the Unicode tables have them there. The three letters
  whose upper case is not a single code point below 256 (U+00B5, U+00DF, U+00FF) are left
  as they are by \<open>latin1_upper\<close>; no example uses them.
\<close>

definition latin1_isspace :: "char \<Rightarrow> bool" where
  "latin1_isspace c =
     (c \<in> set [CHR 0x09, CHR 0x0A, CHR 0x0B, CHR 0x0C, CHR 0x0D, CHR 0x1C, CHR 0x1D, CHR 0x1E,
                CHR 0x1F, CHR 0x20, CHR 0x85, CHR 0xA0])"

definition latin1_strip :: "string \<Rightarrow> string" where
  "latin1_strip s = rev (dropWhile latin1_isspace (rev (dropWhile latin1_isspace s)))"

definition latin1_small :: string where
  "latin1_small = ''abcdefghijklmnopqrstuvwxyz'' @
       [CHR 0xE0, CHR 0xE1, CHR 0xE2, CHR 0xE3, CHR 0xE4, CHR 0xE5, CHR 0xE6, CHR 0xE7,
        CHR 0xE8, CHR 0xE9, CHR 0xEA, CHR 0xEB, CHR 0xEC, CHR 0xED, CHR 0xEE, CHR 0xEF,
        CHR 0xF0, CHR 0xF1, CHR 0xF2, CHR 0xF3, CHR 0xF4, CHR 0xF5, CHR 0xF6, CHR 0xF8,
        CHR 0xF9, CHR 0xFA, CHR 0xFB, CHR 0xFC, CHR 0xFD, CHR 0xFE]"

definition latin1_capital :: string where
  "latin1_capital = ''ABCDEFGHIJKLMNOPQRSTUVWXYZ'' @
       [CHR 0xC0, CHR 0xC1, CHR 0xC2, CHR 0xC3, CHR 0xC4, CHR 0xC5, CHR 0xC6, CHR 0xC7,
        CHR 0xC8, CHR 0xC9, CHR 0xCA, CHR 0xCB, CHR 0xCC, CHR 0xCD, CHR 0xCE, CHR 0xCF,
        CHR 0xD0, CHR 0xD1, CHR 0xD2, CHR 0xD3, CHR 0xD4, CHR 0xD5, CHR 0xD6, CHR 0xD8,
        CHR 0xD9, CHR 0xDA, CHR 0xDB, CHR 0xDC, CHR 0xDD, CHR 0xDE]"

definition latin1_upper :: "string \<Rightarrow> string" where
  "latin1_upper s =
     map (\<lambda>c. case map_of (zip latin1_small latin1_capital) c of Some u \<Rightarrow> u | None \<Rightarrow> c) s"

definition latin1_lower :: "string \<Rightarrow> string" where
  "latin1_lower s =
     map (\<lambda>c. case map_of (zip latin1_capital latin1_small) c of Some l \<Rightarrow> l | None \<Rightarrow> c) s"

definition sample_memory :: "nat \<Rightarrow> 8 word" where
  "sample_memory address = (if address = 1000 then 0 else 0x31)"

definition sample_format ::
  "TRACE_EVENT_INFO \<Rightarrow> EVENT_MAP_INFO pointer option \<Rightarrow> format_request
     \<Rightarrow> status \<times> nat \<times> string \<times> 16 word" where
  "sample_format info map_info request =
     (if UserDataLength_arg request < PropertyLength request then (15005, 0, [], 0)
      else if \<not> Buffer request then (122, 6, [], 0)
      else (0, 6, if sample_memory (UserData_arg request) = 0 then ''0'' else ''12'',
            of_nat (max 1 (PropertyLength request))))"

definition sample_property :: EVENT_PROPERTY_INFO where
  "sample_property =
     \<lparr>Flags = 0, NameOffset = 100, InType = 4, OutType = 0, MapNameOffset = 0,
      StructStartIndex = 0, NumOfStructMembers = 0, epi_u2_count = 1,
      epi_u2_countPropertyIndex = 0, epi_u3_length = 1\<rparr>"

definition sample_strings :: "nat \<Rightarrow> string" where
  "sample_strings offset =
     (if offset = 10 then ''Sample-Provider''
      else if offset = 30 then '' FileIo ''
      else if offset = 50 then ''A sample event''
      else if offset = 100 then ''Data''
      else if offset = 110 then ''NameLength''
      else if offset = 130 then ''Name''
      else [])"

text \<open>
  Three top-level properties: \<open>NameLength\<close> (one byte), \<open>Data\<close> (one byte) and \<open>Name\<close>
  (declared length 0). Every other index holds the one-byte property \<open>Data\<close>.
\<close>

definition sample_properties :: "nat \<Rightarrow> EVENT_PROPERTY_INFO" where
  "sample_properties i =
     (if i = 0 then sample_property\<lparr>NameOffset := 110\<rparr>
      else if i = 2 then sample_property\<lparr>NameOffset := 130, epi_u3_length := 0\<rparr>
      else sample_property)"

definition sample_info :: TRACE_EVENT_INFO where
  "sample_info =
     \<lparr>ProviderNameOffset = 10, TaskNameOffset = 30, EventMessageOffset = 50,
      EventDescriptor_Id = 7, TopLevelPropertyCount = 3,
      EventPropertyInfoArray = sample_properties, strings = sample_strings\<rparr>"

definition windows :: env where
  "windows =
     \<lparr>ERROR_SUCCESS = 0, ERROR_INSUFFICIENT_BUFFER = 122, ERROR_NOT_FOUND = 1168,
      ERROR_EVT_INVALID_EVENT_DATA = 15005,
      PropertyStruct = 0x1, PropertyParamLength = 0x2, PropertyParamCount = 0x4,
      PropertyParamFixedCount = 0x20,
      TDH_INTYPE_BINARY = 14, TDH_OUTTYPE_IPV6 = 24,
      EVENT_HEADER_FLAG_32_BIT_HEADER = 0x20, MAX_UINT = 4294967295,
      TDH_CONVERTER_LOOKUP = (\<lambda>out_type. None),
      TdhGetEventInformation =
        (\<lambda>record buffer. case buffer of None \<Rightarrow> (122, 64, sample_info)
                                      | Some n \<Rightarrow> (0, 64, sample_info)),
      TdhGetPropertySize = (\<lambda>record descriptor. (0, 4)),
      TdhGetProperty = (\<lambda>record descriptor size. (0, 4)),
      TdhGetEventMapInformation = (\<lambda>record map_name buffer. (1168, 0, [])),
      TdhFormatProperty = sample_format,
      memory = sample_memory,
      str_strip = latin1_strip, str_upper = latin1_upper, str_lower = latin1_lower\<rparr>"

text \<open>A record with a payload of one byte, at address 1000.\<close>

definition sample_record :: EVENT_RECORD where
  "sample_record =
     \<lparr>Header_Size = 80, Header_HeaderType = 0, Header_Flags = 0x40, Header_EventProperty = 0,
      Header_ThreadId = 1, Header_ProcessId = 2, Header_TimeStamp = 3,
      Header_ProviderId = ''{0}'', Header_Id = 7, Header_Version = 0, Header_Channel = 0,
      Header_Level = 4, Header_Opcode = 0, Header_Task = 0, Header_Keyword = 0,
      Header_KernelTime = 0, Header_UserTime = 0, Header_ActivityId = ''{1}'',
      UserData = Some 1000, UserDataLength = 1\<rparr>"

definition sample_consumer :: EventConsumer where
  "sample_consumer =
     \<lparr>event_callback = True, vfield_length = None, index = 0, task_name_filters = []\<rparr>"

text \<open>A record with a payload of twenty bytes, at address 2000.\<close>

definition payload_record :: EVENT_RECORD where
  "payload_record = sample_record\<lparr>UserData := Some 2000, UserDataLength := 20\<rparr>"

text \<open>
  A structure property of three elements with two members each, the properties 0 and 1 of
  the sample metadata.
\<close>

definition struct_property :: EVENT_PROPERTY_INFO where
  "struct_property =
     sample_property\<lparr>Flags := 1, StructStartIndex := 0, NumOfStructMembers := 2,
                      epi_u2_count := 3\<rparr>"

text \<open>
  An environment whose converter table has Python's \<^verbatim>\<open>int\<close> for the output type 8 (an
  unsigned integer in tdh.h), and nothing else.
\<close>

definition int_converter :: "pyvalue \<Rightarrow> error + pyvalue" where
  "int_converter v = (case py_int v of Inl e \<Rightarrow> Inl e | Inr n \<Rightarrow> Inr (PyInt n))"

definition converting_windows :: env where
  "converting_windows =
     windows\<lparr>TDH_CONVERTER_LOOKUP := (\<lambda>out_type. if out_type = 8 then Some int_converter else None)\<rparr>"

section \<open>Properties\<close>

subsection \<open>Evaluating the sample session\<close>

lemma windows_simps:
  "ERROR_SUCCESS windows = 0" "ERROR_INSUFFICIENT_BUFFER windows = 122"
  "ERROR_NOT_FOUND windows = 1168" "ERROR_EVT_INVALID_EVENT_DATA windows = 15005"
  "PropertyStruct windows = 1" "PropertyParamLength windows = 2"
  "PropertyParamCount windows = 4" "PropertyParamFixedCount windows = 32"
  "TDH_INTYPE_BINARY windows = 14" "TDH_OUTTYPE_IPV6 windows = 24"
  "EVENT_HEADER_FLAG_32_BIT_HEADER windows = 32" "MAX_UINT windows = 4294967295"
  "TDH_CONVERTER_LOOKUP windows out_type = None"
  "TdhGetEventInformation windows record None = (122, 64, sample_info)"
  "TdhGetEventInformation windows record (Some n) = (0, 64, sample_info)"
  "TdhGetPropertySize windows record descriptor = (0, 4)"
  "TdhGetProperty windows record descriptor sz = (0, 4)"
  "TdhGetEventMapInformation windows record map_name buffer = (1168, 0, [])"
  "TdhFormatProperty windows = sample_format"
  "memory windows = sample_memory"
  "str_strip windows = latin1_strip" "str_upper windows = latin1_upper"
  "str_lower windows = latin1_lower"
  by (simp_all add: windows_def)

lemma sample_record_simps:
  "UserData sample_record = Some 1000" "UserDataLength sample_record = 1"
  "Header_Flags sample_record = 64"
  by (simp_all add: sample_record_def)

lemma sample_info_simps:
  "ProviderNameOffset sample_info = 10" "TaskNameOffset sample_info = 30"
  "EventMessageOffset sample_info = 50" "EventDescriptor_Id sample_info = 7"
  "TopLevelPropertyCount sample_info = 3"
  "EventPropertyInfoArray sample_info = sample_properties"
  "strings sample_info = sample_strings"
  by (simp_all add: sample_info_def)

lemma getMapInfo_windows: "getMapInfo windows record info event_property = Inr (None, True)"
  by (simp add: getMapInfo_def windows_simps)

lemma getEventInformation_windows:
  "getEventInformation windows record = Inr (Some (Ptr sample_info))"
  by (simp add: getEventInformation_def windows_simps)

subsection \<open>What the decoders leave unchanged\<close>

text \<open>No decoder touches the callback or the filter list of the consumer.\<close>

lemma formatSimpleType_config:
  assumes "formatSimpleType w record info event_property map_info ptr_size name_field
             property_length self = (r, self1, calls)"
  shows "event_callback self1 = event_callback self
         \<and> task_name_filters self1 = task_name_filters self"
  using assms
  by (auto simp add: formatSimpleType_def Let_def
       split: option.splits prod.splits sum.splits if_splits)

lemma unpackSimpleType_config:
  assumes "unpackSimpleType w record info event_property self = (r, self1, calls)"
  shows "event_callback self1 = event_callback self
         \<and> task_name_filters self1 = task_name_filters self"
  using assms
  by (auto simp add: unpackSimpleType_def Let_def dest: formatSimpleType_config
       split: option.splits prod.splits sum.splits if_splits)

lemma unpackComplexType_members_config:
  "unpackComplexType_members w record info js out self = (r, self1, calls) \<Longrightarrow>
   event_callback self1 = event_callback self
   \<and> task_name_filters self1 = task_name_filters self"
proof (induction js arbitrary: out self r self1 calls)
  case Nil
  then show ?case by simp
next
  case (Cons j js)
  then show ?case
    by (fastforce split: prod.splits sum.splits dest: unpackSimpleType_config)
qed

lemma unpackComplexType_elements_config:
  "unpackComplexType_elements w record info event_property is out self = (r, self1, calls) \<Longrightarrow>
   event_callback self1 = event_callback self
   \<and> task_name_filters self1 = task_name_filters self"
proof (induction "is" arbitrary: out self r self1 calls)
  case Nil
  then show ?case by simp
next
  case (Cons i "is")
  then show ?case
    by (fastforce simp add: Let_def split: prod.splits sum.splits
          dest: unpackComplexType_members_config)
qed

lemma unpackComplexType_config:
  assumes "unpackComplexType w record info event_property self = (r, self1, calls)"
  shows "event_callback self1 = event_callback self
         \<and> task_name_filters self1 = task_name_filters self"
  using assms
  by (auto simp add: unpackComplexType_def split: sum.splits option.splits
        dest: unpackComplexType_elements_config)

lemma processEvent_properties_config:
  "processEvent_properties w record info user_data end_of_user_data is out self
     = (r, self1, calls) \<Longrightarrow>
   event_callback self1 = event_callback self
   \<and> task_name_filters self1 = task_name_filters self"
proof (induction "is" arbitrary: out self r self1 calls)
  case Nil
  then show ?case by simp
next
  case (Cons i "is")
  show ?case
  proof (cases "user_data = end_of_user_data")
    case True
    with Cons.prems show ?thesis by simp
  next
    case False
    obtain r0 s0 c0 where step:
      "(if Flags (EventPropertyInfoArray info i) AND PropertyStruct w \<noteq> 0
        then unpackComplexType w record info (EventPropertyInfoArray info i) self
        else unpackSimpleType w record info (EventPropertyInfoArray info i) self) = (r0, s0, c0)"
      by (metis prod_cases3)
    then have cfg0: "event_callback s0 = event_callback self
                     \<and> task_name_filters s0 = task_name_filters self"
      by (auto split: if_splits dest: unpackComplexType_config unpackSimpleType_config)
    show ?thesis
    proof (cases r0)
      case (Inl e)
      with Cons.prems False step cfg0 show ?thesis by (simp add: Let_def)
    next
      case (Inr d)
      obtain r1 s1 c1 where rest:
        "processEvent_properties w record info user_data end_of_user_data is
           (dict_update out d) s0 = (r1, s1, c1)"
        by (metis prod_cases3)
      from Cons.IH [OF rest] cfg0
      have "event_callback s1 = event_callback self
            \<and> task_name_filters s1 = task_name_filters self" by simp
      with Cons.prems False step Inr rest show ?thesis by (simp add: Let_def)
    qed
  qed
qed

lemma processEvent_config:
  assumes "processEvent w record self = (r, self1, calls)"
  shows "event_callback self1 = event_callback self
         \<and> task_name_filters self1 = task_name_filters self"
proof -
  have "\<And>info user_data end_of_user_data out r0 s0 c0.
          processEvent_properties w record info user_data end_of_user_data
            [0..<TopLevelPropertyCount info] out (self\<lparr>index := 0, vfield_length := None\<rparr>)
            = (r0, s0, c0)
          \<Longrightarrow> event_callback s0 = event_callback self
              \<and> task_name_filters s0 = task_name_filters self"
    by (drule processEvent_properties_config) simp
  with assms show ?thesis
    by (auto simp add: processEvent_def Let_def
          split: sum.splits option.splits pointer.splits prod.splits if_splits)
qed

lemma reset_cursor_eq:
  fixes s s' :: EventConsumer
  assumes "event_callback s' = event_callback s"
    and "task_name_filters s' = task_name_filters s"
  shows "s'\<lparr>index := 0, vfield_length := None\<rparr> = s\<lparr>index := 0, vfield_length := None\<rparr>"
  using assms by (cases s; cases s') simp

lemma processEvent_cong:
  assumes "event_callback s' = event_callback s"
    and "task_name_filters s' = task_name_filters s"
  shows "fst (processEvent w record s') = fst (processEvent w record s)
         \<and> snd (snd (processEvent w record s')) = snd (snd (processEvent w record s))
         \<and> (fst (snd (processEvent w record s')) = fst (snd (processEvent w record s))
            \<or> fst (snd (processEvent w record s')) = s' \<and> fst (snd (processEvent w record s)) = s)"
proof -
  have reset: "s'\<lparr>index := 0, vfield_length := None\<rparr> = s\<lparr>index := 0, vfield_length := None\<rparr>"
    using assms by (rule reset_cursor_eq)
  show ?thesis
    unfolding processEvent_def Let_def reset assms(2)
    by (simp split: sum.splits option.splits pointer.splits prod.splits)
qed

subsection \<open>The fragment recovery\<close>

lemma int_of_string_error: "int_of_string s = Inl e \<Longrightarrow> e = ValueError"
  by (auto simp add: int_of_string_def Let_def split: prod.splits option.splits if_splits)

lemma try_int_PyBytes: "\<exists>v. try_int (PyBytes bs) = Inr v"
  by (auto simp add: try_int_def split: sum.splits dest: int_of_string_error)

lemma handleEvtInvalidEvtData_eq:
  "handleEvtInvalidEvtData w user_data remaining
     = (of_nat remaining,
        c_char_Array (map (\<lambda>k. memory w (user_data + k)) [0..<remaining] @ [0, 0]))"
  by (simp add: handleEvtInvalidEvtData_def sizeof_c_wchar_def numeral_2_eq_2)

lemma remaining_ushort:
  fixes len :: "16 word"
  shows "unat (of_nat (unat len - i) :: 16 word) = unat len - i"
proof -
  have "unat len < 2 ^ LENGTH(16)" by (rule unsigned_less)
  then have "unat len - i < 2 ^ LENGTH(16)" by simp
  then show ?thesis by (simp add: unat_of_nat)
qed

lemma try_int_recovered:
  "\<exists>v. try_int (formatted_value (snd (handleEvtInvalidEvtData w user_data remaining))) = Inr v"
  by (simp add: handleEvtInvalidEvtData_eq try_int_PyBytes)

lemma consumed_recovered:
  fixes len :: "16 word"
  assumes "i < unat len"
  shows "i + unat (fst (handleEvtInvalidEvtData w user_data (unat len - i))) = unat len"
proof -
  have "fst (handleEvtInvalidEvtData w user_data (unat len - i)) = of_nat (unat len - i)"
    by (simp only: handleEvtInvalidEvtData_eq fst_conv)
  then have "unat (fst (handleEvtInvalidEvtData w user_data (unat len - i))) = unat len - i"
    by (simp only: remaining_ushort)
  with assms show ?thesis by linarith
qed

lemma remaining_nat:
  fixes len :: "16 word"
  assumes "i < unat len"
  shows "uint len - int i = int (unat len - i)"
  using assms by (simp add: of_nat_diff less_imp_le)

lemma formatSimpleType_invalid:
  assumes base: "UserData record = Some base"
    and rem: "uint (UserDataLength record) - int (index self) = int r" "0 < r"
    and fp: "formatProperty w info map_info
               \<lparr>PointerSize = ptr_size, PropertyInType = InType event_property,
                PropertyOutType = OutType event_property,
                PropertyLength = nat (property_length mod 65536),
                UserDataLength_arg = r,
                UserData_arg = base + index self, BufferSize = 0, Buffer = False\<rparr>
             = (ERROR_EVT_INVALID_EVENT_DATA w, formatted, consumed, calls)"
    and distinct: "ERROR_EVT_INVALID_EVENT_DATA w \<noteq> ERROR_SUCCESS w"
    and hint: "try_int (formatted_value (snd (handleEvtInvalidEvtData w (base + index self) r)))
                 = Inr v"
  shows "formatSimpleType w record info event_property map_info ptr_size name_field
           property_length self
         = (case (case TDH_CONVERTER_LOOKUP w (OutType event_property) of
                    None \<Rightarrow> Inr (formatted_value
                                  (snd (handleEvtInvalidEvtData w (base + index self) r)))
                  | Some converter \<Rightarrow>
                      converter (formatted_value
                                   (snd (handleEvtInvalidEvtData w (base + index self) r)))) of
              Inl e \<Rightarrow> Inl e
            | Inr val \<Rightarrow> Inr [(name_field, val)],
            self\<lparr>index := index self + unat (fst (handleEvtInvalidEvtData w (base + index self) r)),
                 vfield_length := (if endswith (str_lower w name_field) ''length'' then v
                                   else vfield_length self)\<rparr>,
            calls)"
  using base rem fp distinct hint
  by (simp add: formatSimpleType_def Let_def case_prod_unfold split: option.splits sum.splits)

lemma formatSimpleType_fragment:
  assumes base: "UserData record = Some base"
    and remaining: "index self < unat (UserDataLength record)"
    and invalid: "fst (formatProperty w info map_info
                    \<lparr>PointerSize = ptr_size, PropertyInType = InType event_property,
                     PropertyOutType = OutType event_property,
                     PropertyLength = nat (property_length mod 65536),
                     UserDataLength_arg = unat (UserDataLength record) - index self,
                     UserData_arg = base + index self, BufferSize = 0, Buffer = False\<rparr>)
                  = ERROR_EVT_INVALID_EVENT_DATA w"
    and distinct: "ERROR_EVT_INVALID_EVENT_DATA w \<noteq> ERROR_SUCCESS w"
  shows "\<exists>self1 calls.
           formatSimpleType w record info event_property map_info ptr_size name_field
             property_length self
           = (case (case TDH_CONVERTER_LOOKUP w (OutType event_property) of
                      None \<Rightarrow> Inr (formatted_value (snd (handleEvtInvalidEvtData w
                                 (base + index self) (unat (UserDataLength record) - index self))))
                    | Some converter \<Rightarrow>
                        converter (formatted_value (snd (handleEvtInvalidEvtData w
                          (base + index self) (unat (UserDataLength record) - index self))))) of
                Inl e \<Rightarrow> Inl e
              | Inr val \<Rightarrow> Inr [(name_field, val)],
              self1, calls)
           \<and> index self1 = unat (UserDataLength record)"
proof -
  let ?r = "unat (UserDataLength record) - index self"
  let ?data = "formatted_value (snd (handleEvtInvalidEvtData w (base + index self) ?r))"
  obtain status formatted consumed calls where
    "formatProperty w info map_info
       \<lparr>PointerSize = ptr_size, PropertyInType = InType event_property,
        PropertyOutType = OutType event_property,
        PropertyLength = nat (property_length mod 65536),
        UserDataLength_arg = ?r,
        UserData_arg = base + index self, BufferSize = 0, Buffer = False\<rparr>
     = (status, formatted, consumed, calls)"
    by (rule prod_cases4)
  with invalid have fp:
    "formatProperty w info map_info
       \<lparr>PointerSize = ptr_size, PropertyInType = InType event_property,
        PropertyOutType = OutType event_property,
        PropertyLength = nat (property_length mod 65536),
        UserDataLength_arg = ?r,
        UserData_arg = base + index self, BufferSize = 0, Buffer = False\<rparr>
     = (ERROR_EVT_INVALID_EVENT_DATA w, formatted, consumed, calls)"
    by simp
  have rem: "uint (UserDataLength record) - int (index self) = int ?r" "0 < ?r"
    using remaining by (rule remaining_nat) (use remaining in linarith)
  obtain v where hint: "try_int ?data = Inr v"
    using try_int_recovered [of w "base + index self" ?r] by (erule exE)
  note eq = formatSimpleType_invalid [OF base rem fp distinct hint]
  have "index self + unat (fst (handleEvtInvalidEvtData w (base + index self) ?r))
          = unat (UserDataLength record)"
    using remaining by (rule consumed_recovered)
  then have idx: "index (self\<lparr>index := index self
                    + unat (fst (handleEvtInvalidEvtData w (base + index self) ?r)),
                 vfield_length := (if endswith (str_lower w name_field) ''length'' then v
                                   else vfield_length self)\<rparr>) = unat (UserDataLength record)"
    by simp
  from eq [of name_field] idx show ?thesis by blast
qed

lemma unpackSimpleType_eq_format:
  assumes "getMapInfo w record info event_property = Inr (map_info, True)"
    and "getPropertyLength w record info event_property = Inr (Some declared)"
    and "\<not> (declared = 0 \<and> vfield_length self = Some 0)"
    and "property_length =
           (if declared = 0 then (case vfield_length self of None \<Rightarrow> 0 | Some n \<Rightarrow> n)
            else declared)"
  shows "unpackSimpleType w record info event_property self
           = formatSimpleType w record info event_property map_info
               (if Header_Flags record AND EVENT_HEADER_FLAG_32_BIT_HEADER w \<noteq> 0 then 4 else 8)
               (rel_ptr_to_str info (NameOffset event_property)) property_length self"
  using assms by (auto simp add: unpackSimpleType_def Let_def split: option.splits)

subsection \<open>The formatter calls of a scalar decode\<close>

lemma formatSimpleType_no_data:
  assumes "UserData record = Some base"
    and "uint (UserDataLength record) - int (index self) \<le> 0"
  shows "formatSimpleType w record info event_property map_info ptr_size name_field
           property_length self = (Inr [], self, [])"
  using assms by (simp add: formatSimpleType_def Let_def)

lemma formatProperty_calls:
  "snd (snd (snd (formatProperty w info map_info request))) \<noteq> []
   \<and> list_all (\<lambda>c. \<exists>r. c = FormatProperty r \<and> PropertyLength r = PropertyLength request)
         (snd (snd (snd (formatProperty w info map_info request))))"
  by (simp add: formatProperty_def Let_def split: prod.splits)

lemma formatSimpleType_calls:
  assumes base: "UserData record = Some base"
    and rem: "uint (UserDataLength record) - int (index self) = int r" "0 < r"
  shows "snd (snd (formatSimpleType w record info event_property map_info ptr_size name_field
                     property_length self))
         = snd (snd (snd (formatProperty w info map_info
               \<lparr>PointerSize = ptr_size, PropertyInType = InType event_property,
                PropertyOutType = OutType event_property,
                PropertyLength = nat (property_length mod 65536),
                UserDataLength_arg = r,
                UserData_arg = base + index self, BufferSize = 0, Buffer = False\<rparr>)))"
  using base rem
  by (simp add: formatSimpleType_def Let_def case_prod_unfold split: sum.splits option.splits)

subsection \<open>More of the sample session\<close>

lemmas sample_simps = windows_simps sample_record_simps sample_info_simps sample_properties_def
  sample_property_def sample_strings_def sample_format_def sample_memory_def

lemma getPropertyLength_sample:
  "Flags event_property = 0 \<Longrightarrow> InType event_property = 4 \<Longrightarrow>
   getPropertyLength windows record info event_property
     = Inr (Some (int (epi_u3_length event_property)))"
  by (simp add: getPropertyLength_def Let_def windows_simps)

lemma payload_record_simps:
  "UserData payload_record = Some 2000" "UserDataLength payload_record = 20"
  "Header_Flags payload_record = 64"
  by (simp_all add: payload_record_def sample_record_def)

lemma endswith_length:
  "endswith (latin1_lower ''NameLength'') ''length''"
  "\<not> endswith (latin1_lower ''Name'') ''length''"
  "\<not> endswith (latin1_lower ''Data'') ''length''"
  by (simp_all add: endswith_def latin1_lower_def latin1_small_def latin1_capital_def)

lemma try_int_samples:
  "try_int (PyStr ''12'') = Inr (Some 12)" "try_int (PyStr ''0'') = Inr (Some 0)"
  by (simp_all add: try_int_def int_of_string_def ascii_isspace_def digit_val_def)

lemma task_name_of_sample: "task_name_of windows sample_info = ''FILEIO''"
  by (simp add: task_name_of_def sample_info_simps rel_ptr_to_str_def sample_strings_def
        windows_simps latin1_strip_def latin1_isspace_def latin1_upper_def latin1_small_def
        latin1_capital_def)

lemma handleEvtInvalidEvtData_sample:
  "handleEvtInvalidEvtData windows 2000 3 = (3, c_char_Array [0x31, 0x31, 0x31, 0, 0])"
proof -
  have "[0..<3] = [0, 1, 2::nat]" by (simp add: upt_rec)
  then show ?thesis
    by (simp add: handleEvtInvalidEvtData_eq windows_simps sample_memory_def)
qed

lemma fragment_record_simps:
  "UserData (payload_record\<lparr>UserDataLength := 3\<rparr>) = Some 2000"
  "UserDataLength (payload_record\<lparr>UserDataLength := 3\<rparr>) = 3"
  "Header_Flags (payload_record\<lparr>UserDataLength := 3\<rparr>) = 64"
  by (simp_all add: payload_record_def sample_record_def)

lemma converting_windows_simps:
  "ERROR_SUCCESS converting_windows = 0" "ERROR_INSUFFICIENT_BUFFER converting_windows = 122"
  "ERROR_NOT_FOUND converting_windows = 1168"
  "ERROR_EVT_INVALID_EVENT_DATA converting_windows = 15005"
  "PropertyParamLength converting_windows = 2"
  "TDH_INTYPE_BINARY converting_windows = 14"
  "EVENT_HEADER_FLAG_32_BIT_HEADER converting_windows = 32"
  "TDH_CONVERTER_LOOKUP converting_windows 8 = Some int_converter"
  "TdhGetEventMapInformation converting_windows record map_name buffer = (1168, 0, [])"
  "TdhFormatProperty converting_windows = sample_format"
  "memory converting_windows = sample_memory"
  "str_lower converting_windows = latin1_lower"
  by (simp_all add: converting_windows_def windows_def)

text \<open>The string methods and the integer parser at some inputs beyond plain ASCII digits.\<close>

lemma latin1_examples:
  "latin1_upper (latin1_strip (''FileIo'' @ [CHR 0xA0])) = ''FILEIO''"
  "latin1_upper (latin1_strip [CHR ''c'', CHR ''a'', CHR ''f'', CHR 0xE9])
     = [CHR ''C'', CHR ''A'', CHR ''F'', CHR 0xC9]"
  by (simp_all add: latin1_upper_def latin1_strip_def latin1_isspace_def latin1_small_def
        latin1_capital_def)

lemma py_int_examples:
  "py_int (PyStr ''1_2'') = Inr 12"
  "py_int (PyStr (CHR 0x1C # ''12'')) = Inl ValueError"
  "py_int (PyStr (CHR 0xA0 # '' 12 '')) = Inr 12"
  "py_int (PyStr ''-007'') = Inr (- 7)"
  "py_int (PyStr ''1__2'') = Inl ValueError"
  "py_int (PyStr ''12_'') = Inl ValueError"
  "py_int (PyBytes []) = Inl ValueError"
  "py_int PyNone = Inl TypeError"
  by (simp_all add: int_of_string_def ascii_isspace_def digit_val_def)

subsection \<open>The structure decoder\<close>

text \<open>
  A scalar decode returns a dict of at most one entry, which the unpacking
  \<^verbatim>\<open>key, value = ...\<close> of the structure decoder rejects. So the structure decoder returns
  normally only when it decodes no member at all, and then its result is empty.
\<close>

lemma formatSimpleType_at_most_one:
  "fst (formatSimpleType w record info event_property map_info ptr_size name_field
          property_length self) = Inr d \<Longrightarrow> length d \<le> 1"
  by (auto simp add: formatSimpleType_def Let_def case_prod_unfold
        split: option.splits sum.splits if_splits)

lemma unpackSimpleType_at_most_one:
  "fst (unpackSimpleType w record info event_property self) = Inr d \<Longrightarrow> length d \<le> 1"
  by (auto simp add: unpackSimpleType_def Let_def
        split: option.splits sum.splits if_splits prod.splits
        dest: formatSimpleType_at_most_one)

lemma unpack_pair_short: "length d \<le> 1 \<Longrightarrow> unpack_pair d = Inl ValueError"
  by (cases d; cases "tl d") (auto simp add: unpack_pair_def)

lemma unpackComplexType_members_raises:
  "\<exists>e. fst (unpackComplexType_members w record info (j # js) out self) = Inl e"
proof (cases "unpackSimpleType w record info (EventPropertyInfoArray info j) self")
  case (fields r self1 calls)
  show ?thesis
  proof (cases r)
    case (Inl e)
    with fields show ?thesis by simp
  next
    case (Inr d)
    with fields have "length d \<le> 1"
      using unpackSimpleType_at_most_one [of w "record" info "EventPropertyInfoArray info j" self d]
      by simp
    then have "unpack_pair d = Inl ValueError" by (rule unpack_pair_short)
    with fields Inr show ?thesis by simp
  qed
qed

lemma unpackComplexType_elements_raises:
  assumes "0 < NumOfStructMembers event_property"
  shows "\<exists>e. fst (unpackComplexType_elements w record info event_property (i # is) out self)
               = Inl e"
proof -
  let ?start = "StructStartIndex event_property"
  from assms have range: "[?start..<?start + NumOfStructMembers event_property]
                     = ?start # [Suc ?start..<?start + NumOfStructMembers event_property]"
    by (simp add: upt_conv_Cons)
  obtain e where "fst (unpackComplexType_members w record info
                         (?start # [Suc ?start..<?start + NumOfStructMembers event_property])
                         out self) = Inl e"
    using unpackComplexType_members_raises by blast
  then show ?thesis
    by (simp add: Let_def range case_prod_unfold split: sum.splits)
qed

lemma unpackComplexType_never_decodes:
  assumes "fst (unpackComplexType w record info event_property self) = Inr d"
  shows "d = [] \<and> (epi_u2_count event_property = 0 \<or> NumOfStructMembers event_property = 0)"
proof (cases "getArraySize w record info event_property")
  case (Inl e)
  with assms show ?thesis by (simp add: unpackComplexType_def)
next
  case (Inr size)
  then have size: "size = Some (epi_u2_count event_property)"
    by (auto simp add: getArraySize_def Let_def split: if_splits)
  show ?thesis
  proof (cases "epi_u2_count event_property")
    case 0
    with assms Inr size show ?thesis by (simp add: unpackComplexType_def)
  next
    case (Suc n)
    then have elements: "[0..<epi_u2_count event_property] = 0 # [1..<epi_u2_count event_property]"
      by (simp add: upt_conv_Cons)
    show ?thesis
    proof (cases "NumOfStructMembers event_property")
      case 0
      have "\<And>is out s. unpackComplexType_elements w record info event_property is out s
                         = (Inr out, s, [])"
      proof -
        fix "is" out s
        show "unpackComplexType_elements w record info event_property is out s = (Inr out, s, [])"
          by (induction "is" arbitrary: out s) (simp_all add: 0)
      qed
      with assms Inr size 0 show ?thesis by (simp add: unpackComplexType_def)
    next
      case (Suc m)
      then have "0 < NumOfStructMembers event_property" by simp
      then obtain e where
        "fst (unpackComplexType_elements w record info event_property
                (0 # [1..<epi_u2_count event_property]) [] self) = Inl e"
        using unpackComplexType_elements_raises by blast
      with assms Inr size elements show ?thesis by (simp add: unpackComplexType_def)
    qed
  qed
qed

subsection \<open>Decoding the sample record\<close>

text \<open>
  The sample record has one payload byte. The first property consumes it, the second finds
  no byte left and adds nothing, and the loop goes on to the third, which is emitted as
  \<^verbatim>\<open>None\<close> for the pending length 0.
\<close>

lemma processEvent_sample:
  "processEvent windows sample_record sample_consumer
   = (Inr (), sample_consumer\<lparr>index := 1, vfield_length := None\<rparr>,
      [FormatProperty \<lparr>PointerSize = 8, PropertyInType = 4, PropertyOutType = 0,
         PropertyLength = 1, UserDataLength_arg = 1, UserData_arg = 1000,
         BufferSize = 0, Buffer = False\<rparr>,
       FormatProperty \<lparr>PointerSize = 8, PropertyInType = 4, PropertyOutType = 0,
         PropertyLength = 1, UserDataLength_arg = 1, UserData_arg = 1000,
         BufferSize = 6, Buffer = True\<rparr>,
       Callback 7
         [(''EventHeader'', PyDict (EventHeader sample_record)),
          (''NameLength'', PyStr ''0''),
          (''Name'', PyNone),
          (''Description'', PyStr ''A sample event''),
          (''Task Name'', PyStr ''FILEIO'')]])"
  by (simp add: processEvent_def getEventInformation_windows task_name_of_sample upt_rec
        unpackSimpleType_def formatSimpleType_def formatProperty_def getMapInfo_windows
        getPropertyLength_sample sample_simps Let_def sample_consumer_def
        rel_ptr_to_str_def endswith_length try_int_samples)

text \<open>A fragment: the declared length 8 overruns the three bytes that remain.\<close>

lemma unpackSimpleType_fragment_sample:
  "unpackSimpleType windows (payload_record\<lparr>UserDataLength := 3\<rparr>) sample_info
     (sample_property\<lparr>epi_u3_length := 8\<rparr>) sample_consumer
   = (Inr [(''Data'', PyBytes [0x31, 0x31, 0x31])], sample_consumer\<lparr>index := 3\<rparr>,
      [FormatProperty \<lparr>PointerSize = 8, PropertyInType = 4, PropertyOutType = 0,
         PropertyLength = 8, UserDataLength_arg = 3, UserData_arg = 2000,
         BufferSize = 0, Buffer = False\<rparr>])"
  by (simp add: unpackSimpleType_def formatSimpleType_def formatProperty_def getMapInfo_windows
        getPropertyLength_sample sample_simps fragment_record_simps Let_def sample_consumer_def
        rel_ptr_to_str_def endswith_length handleEvtInvalidEvtData_sample)

text \<open>
  A scalar decode that reaches the test of the remaining bytes with none remaining
  returns the empty dict, leaves the consumer as it was and makes no call.
\<close>

lemma unpackSimpleType_no_data:
  assumes "getMapInfo w record info event_property = Inr (map_info, True)"
    and "getPropertyLength w record info event_property = Inr (Some property_length)"
    and "\<not> (property_length = 0 \<and> vfield_length self = Some 0)"
    and "UserData record = Some base"
    and "uint (UserDataLength record) - int (index self) \<le> 0"
  shows "unpackSimpleType w record info event_property self = (Inr [], self, [])"
  using assms
  by (simp add: unpackSimpleType_def formatSimpleType_def Let_def split: option.splits)

section \<open>The claims\<close>

text \<open>
  Claim C10. The map-info resolver never reports failure through its success flag: it
  raises, or it returns \<^verbatim>\<open>None\<close> with \<open>True\<close>, or a map pointer with \<open>True\<close>. It never returns
  a pair whose flag is \<open>False\<close>, so the guard \<^verbatim>\<open>if not success\<close> of the scalar decoder, which
  tests that flag, is false at every return.
\<close>

theorem getMapInfo_never_reports_failure:
  "(getMapInfo w record info event_property = Inl (WinError None)
      \<or> getMapInfo w record info event_property = Inr (None, True)
      \<or> (\<exists>map_info. getMapInfo w record info event_property = Inr (Some map_info, True)))
   \<and> (\<forall>map_info. getMapInfo w record info event_property \<noteq> Inr (map_info, False))"
  by (auto simp add: getMapInfo_def Let_def split: prod.splits)

text \<open>
  Claim C5, as the code has it. The length-is-field-reference flag is tested first, so the
  fixed size 16 of a binary field formatted as an IPv6 address is returned only when that
  flag is not set; then it is returned whatever the declared length and the other flag
  bits are.
\<close>

theorem getPropertyLength_IPV6:
  assumes "Flags event_property AND PropertyParamLength w = 0"
    and "InType event_property = TDH_INTYPE_BINARY w"
    and "OutType event_property = TDH_OUTTYPE_IPV6 w"
  shows "getPropertyLength w record info event_property = Inr (Some 16)"
  using assms by (simp add: getPropertyLength_def Let_def sizeof_IN6_ADDR_def)

text \<open>
  Claim C5, as stated, fails when the length-is-field-reference flag is set: the sample
  environment answers 4 for the referenced property, and 4 is the length returned.
\<close>

theorem getPropertyLength_IPV6_counterexample:
  "getPropertyLength windows sample_record sample_info
     (sample_property\<lparr>Flags := 2, InType := 14, OutType := 24, epi_u3_length := 0\<rparr>)
   = Inr (Some 4)"
  by (simp add: getPropertyLength_def Let_def windows_simps sample_property_def)

theorem getPropertyLength_IPV6_witness:
  "getPropertyLength windows sample_record sample_info
     (sample_property\<lparr>Flags := 5, InType := 14, OutType := 24, epi_u3_length := 99\<rparr>)
   = Inr (Some 16)"
  using getPropertyLength_IPV6 [of "sample_property\<lparr>Flags := 5, InType := 14, OutType := 24,
          epi_u3_length := 99\<rparr>" windows sample_record sample_info]
  by (simp add: windows_simps)

text \<open>
  Claim C7, as the code has it. The count-is-field-reference flag is tested first. A field
  flagged fixed-count and not flagged count-is-field-reference makes the count resolution
  raise the ETWException, and the structure decoder passes the exception on unchanged.
\<close>

theorem getArraySize_FixedCount:
  assumes "Flags event_property AND PropertyParamCount w = 0"
    and "Flags event_property AND PropertyParamFixedCount w \<noteq> 0"
  shows "getArraySize w record info event_property
           = Inl (ETWException ''PropertyParamFixedCount not supported'')
         \<and> unpackComplexType w record info event_property self
           = (Inl (ETWException ''PropertyParamFixedCount not supported''), self, [])"
  using assms by (simp add: getArraySize_def unpackComplexType_def Let_def)

text \<open>
  Claim C7, as stated, fails for a field that carries both flags: the branch of the
  count-is-field-reference flag is taken, and it raises TypeError.
\<close>

theorem getArraySize_FixedCount_counterexample:
  "getArraySize windows sample_record sample_info (sample_property\<lparr>Flags := 0x24\<rparr>)
   = Inl TypeError"
  by (simp add: getArraySize_def Let_def windows_simps sample_property_def)

theorem getArraySize_FixedCount_witness:
  "getArraySize windows sample_record sample_info (sample_property\<lparr>Flags := 0x21\<rparr>)
     = Inl (ETWException ''PropertyParamFixedCount not supported'')
   \<and> unpackComplexType windows sample_record sample_info (sample_property\<lparr>Flags := 0x21\<rparr>)
       sample_consumer
     = (Inl (ETWException ''PropertyParamFixedCount not supported''), sample_consumer, [])"
  using getArraySize_FixedCount [of "sample_property\<lparr>Flags := 0x21\<rparr>" windows sample_record
          sample_info sample_consumer]
  by (simp add: windows_simps)

text \<open>
  Claim C1, at the sample record of one payload byte and three properties. The first
  property consumes the byte. The scalar decode of the second finds no byte remaining and
  returns the empty dict without consuming anything, as the claim says. But the record
  decoder does not stop there: it goes on to the third property, whose entry \<open>Name\<close> is
  in the output handed to the callback.
\<close>

theorem processEvent_goes_on_after_Skip:
  "unpackSimpleType windows sample_record sample_info (sample_properties 1)
     (sample_consumer\<lparr>index := 1, vfield_length := Some 0\<rparr>)
     = (Inr [], sample_consumer\<lparr>index := 1, vfield_length := Some 0\<rparr>, [])
   \<and> processEvent windows sample_record sample_consumer
     = (Inr (), sample_consumer\<lparr>index := 1, vfield_length := None\<rparr>,
        [FormatProperty \<lparr>PointerSize = 8, PropertyInType = 4, PropertyOutType = 0,
           PropertyLength = 1, UserDataLength_arg = 1, UserData_arg = 1000,
           BufferSize = 0, Buffer = False\<rparr>,
         FormatProperty \<lparr>PointerSize = 8, PropertyInType = 4, PropertyOutType = 0,
           PropertyLength = 1, UserDataLength_arg = 1, UserData_arg = 1000,
           BufferSize = 6, Buffer = True\<rparr>,
         Callback 7
           [(''EventHeader'', PyDict (EventHeader sample_record)),
            (''NameLength'', PyStr ''0''),
            (''Name'', PyNone),
            (''Description'', PyStr ''A sample event''),
            (''Task Name'', PyStr ''FILEIO'')]])"
proof -
  have skip: "unpackSimpleType windows sample_record sample_info (sample_properties 1)
     (sample_consumer\<lparr>index := 1, vfield_length := Some 0\<rparr>)
     = (Inr [], sample_consumer\<lparr>index := 1, vfield_length := Some 0\<rparr>, [])"
    by (simp add: unpackSimpleType_def formatSimpleType_def getMapInfo_windows
          getPropertyLength_sample sample_simps Let_def sample_consumer_def)
  have run: "processEvent windows sample_record sample_consumer
     = (Inr (), sample_consumer\<lparr>index := 1, vfield_length := None\<rparr>,
        [FormatProperty \<lparr>PointerSize = 8, PropertyInType = 4, PropertyOutType = 0,
           PropertyLength = 1, UserDataLength_arg = 1, UserData_arg = 1000,
           BufferSize = 0, Buffer = False\<rparr>,
         FormatProperty \<lparr>PointerSize = 8, PropertyInType = 4, PropertyOutType = 0,
           PropertyLength = 1, UserDataLength_arg = 1, UserData_arg = 1000,
           BufferSize = 6, Buffer = True\<rparr>,
         Callback 7
           [(''EventHeader'', PyDict (EventHeader sample_record)),
            (''NameLength'', PyStr ''0''),
            (''Name'', PyNone),
            (''Description'', PyStr ''A sample event''),
            (''Task Name'', PyStr ''FILEIO'')]])"
    by (rule processEvent_sample)
  from skip run show ?thesis by (rule conjI)
qed

text \<open>
  Claim C9. Decoding the same record twice gives the same result, the same state and the
  same calls (formatter calls and the callback with its output mapping) the second time;
  and the result and the calls of a decode do not depend on the read offset and the
  pending length that an earlier decode left behind.
\<close>

theorem processEvent_twice:
  "(case processEvent w record self of
      (r1, self1, calls1) \<Rightarrow> processEvent w record self1 = (r1, self1, calls1))
   \<and> fst (processEvent w record (self\<lparr>index := i, vfield_length := v\<rparr>))
       = fst (processEvent w record self)
   \<and> snd (snd (processEvent w record (self\<lparr>index := i, vfield_length := v\<rparr>)))
       = snd (snd (processEvent w record self))"
proof -
  obtain r1 self1 calls1 where first: "processEvent w record self = (r1, self1, calls1)"
    by (metis prod_cases3)
  have other: "fst (processEvent w record (self\<lparr>index := i, vfield_length := v\<rparr>))
                 = fst (processEvent w record self)
               \<and> snd (snd (processEvent w record (self\<lparr>index := i, vfield_length := v\<rparr>)))
                 = snd (snd (processEvent w record self))"
    using processEvent_cong [of "self\<lparr>index := i, vfield_length := v\<rparr>" self w "record"]
    by simp
  from processEvent_config [OF first]
  have "fst (processEvent w record self1) = fst (processEvent w record self)
        \<and> snd (snd (processEvent w record self1)) = snd (snd (processEvent w record self))
        \<and> (fst (snd (processEvent w record self1)) = fst (snd (processEvent w record self))
           \<or> fst (snd (processEvent w record self1)) = self1
             \<and> fst (snd (processEvent w record self)) = self)"
    by (intro processEvent_cong) simp_all
  with first have again: "processEvent w record self1 = (r1, self1, calls1)"
    by (cases "processEvent w record self1") auto
  from first again other show ?thesis by simp
qed

text \<open>
  Claim C8. When the metadata resolves and the task name derived from it (the task name
  field, or the provider name when \<^verbatim>\<open>TaskNameOffset\<close> is 0, normalised by \<^verbatim>\<open>strip()\<close> and
  \<^verbatim>\<open>upper()\<close> of the runtime, whatever these compute) is not
  in a non-empty filter list, \<^verbatim>\<open>_processEvent\<close> returns with the consumer unchanged and with no
  call made: no callback and no formatter call.
\<close>

theorem processEvent_filtered:
  assumes "getEventInformation w record = Inr (Some (Ptr info))"
    and "task_name_filters self \<noteq> []"
    and "task_name_of w info \<notin> set (task_name_filters self)"
  shows "processEvent w record self = (Inr (), self, [])"
  using assms by (simp add: processEvent_def Let_def)

theorem processEvent_filtered_witness:
  "task_name_of windows sample_info = ''FILEIO''
   \<and> processEvent windows sample_record (sample_consumer\<lparr>task_name_filters := [''REGISTRY'']\<rparr>)
     = (Inr (), sample_consumer\<lparr>task_name_filters := [''REGISTRY'']\<rparr>, [])"
  using processEvent_filtered [of windows sample_record sample_info
          "sample_consumer\<lparr>task_name_filters := [''REGISTRY'']\<rparr>"]
  by (simp add: getEventInformation_windows task_name_of_sample)

text \<open>
  Claim C4, as the code has it. For a scalar field whose resolved length is 0 while a
  pending length \<open>n\<close> is held: if \<open>n\<close> is 0 the decoder returns \<^verbatim>\<open>{name: None}\<close>, makes no call
  and leaves the read offset as it was; if \<open>n\<close> is not 0, the payload pointer is not NULL and
  bytes remain, the decoder calls the formatter, and every call it makes passes \<open>n\<close>, reduced
  to the 16 bits of the length argument, as the property length.
\<close>

theorem unpackSimpleType_pending:
  assumes map: "getMapInfo w record info event_property = Inr (map_info, True)"
    and len: "getPropertyLength w record info event_property = Inr (Some 0)"
    and pending: "vfield_length self = Some n"
  shows "(n = 0 \<longrightarrow>
            unpackSimpleType w record info event_property self
              = (Inr [(rel_ptr_to_str info (NameOffset event_property), PyNone)],
                 self\<lparr>vfield_length := None\<rparr>, []))
         \<and> (n \<noteq> 0 \<and> UserData record \<noteq> None \<and> index self < unat (UserDataLength record) \<longrightarrow>
              (case unpackSimpleType w record info event_property self of
                 (result, self1, calls) \<Rightarrow>
                   calls \<noteq> []
                   \<and> list_all (\<lambda>c. \<exists>request. c = FormatProperty request
                                    \<and> PropertyLength request = nat (n mod 65536)) calls))"
proof (intro conjI impI)
  assume "n = 0"
  with map len pending
  show "unpackSimpleType w record info event_property self
          = (Inr [(rel_ptr_to_str info (NameOffset event_property), PyNone)],
             self\<lparr>vfield_length := None\<rparr>, [])"
    by (simp add: unpackSimpleType_def Let_def)
next
  assume positive: "n \<noteq> 0 \<and> UserData record \<noteq> None \<and> index self < unat (UserDataLength record)"
  then obtain base where base: "UserData record = Some base" by blast
  let ?r = "unat (UserDataLength record) - index self"
  let ?ptr_size = "if Header_Flags record AND EVENT_HEADER_FLAG_32_BIT_HEADER w \<noteq> 0 then 4 else 8"
  let ?name = "rel_ptr_to_str info (NameOffset event_property)"
  from positive have less: "index self < unat (UserDataLength record)" by blast
  have rem: "uint (UserDataLength record) - int (index self) = int ?r" "0 < ?r"
    using less by (rule remaining_nat) (use less in simp)
  from positive pending have present: "\<not> ((0::int) = 0 \<and> vfield_length self = Some 0)"
    by simp
  from pending have eff: "n = (if (0::int) = 0
                               then (case vfield_length self of None \<Rightarrow> 0 | Some m \<Rightarrow> m) else 0)"
    by simp
  have decode: "unpackSimpleType w record info event_property self
                  = formatSimpleType w record info event_property map_info ?ptr_size ?name n self"
    using map len present eff by (rule unpackSimpleType_eq_format)
  have "snd (snd (formatSimpleType w record info event_property map_info ?ptr_size ?name n self))
          \<noteq> []
        \<and> list_all (\<lambda>c. \<exists>request. c = FormatProperty request
                        \<and> PropertyLength request = nat (n mod 65536))
            (snd (snd (formatSimpleType w record info event_property map_info ?ptr_size
                         ?name n self)))"
    unfolding formatSimpleType_calls [OF base rem]
    using formatProperty_calls [of w info map_info
            "\<lparr>PointerSize = ?ptr_size, PropertyInType = InType event_property,
              PropertyOutType = OutType event_property,
              PropertyLength = nat (n mod 65536), UserDataLength_arg = ?r,
              UserData_arg = base + index self, BufferSize = 0, Buffer = False\<rparr>"]
    by simp
  then show "case unpackSimpleType w record info event_property self of
               (result, self1, calls) \<Rightarrow>
                 calls \<noteq> []
                 \<and> list_all (\<lambda>c. \<exists>request. c = FormatProperty request
                                  \<and> PropertyLength request = nat (n mod 65536)) calls"
    unfolding decode by (simp add: case_prod_unfold)
qed

text \<open>
  Claim C4, as stated, fails when no byte remains: with the pending length 12 and the
  resolved length 0 the decoder returns the empty dict and formats nothing.
\<close>

theorem unpackSimpleType_pending_counterexample:
  "getPropertyLength windows sample_record sample_info (sample_properties 2) = Inr (Some 0)
   \<and> unpackSimpleType windows sample_record sample_info (sample_properties 2)
       (sample_consumer\<lparr>index := 1, vfield_length := Some 12\<rparr>)
     = (Inr [], sample_consumer\<lparr>index := 1, vfield_length := Some 12\<rparr>, [])"
  by (simp add: unpackSimpleType_def formatSimpleType_def getMapInfo_windows
        getPropertyLength_sample sample_simps Let_def sample_consumer_def)

theorem unpackSimpleType_pending_witness:
  "unpackSimpleType windows sample_record sample_info (sample_properties 2)
       (sample_consumer\<lparr>vfield_length := Some 0\<rparr>)
     = (Inr [(''Name'', PyNone)], sample_consumer\<lparr>vfield_length := None\<rparr>, [])
   \<and> (case unpackSimpleType windows payload_record sample_info (sample_properties 2)
               (sample_consumer\<lparr>vfield_length := Some 12\<rparr>) of
         (result, self1, calls) \<Rightarrow>
           calls \<noteq> []
           \<and> list_all (\<lambda>c. \<exists>request. c = FormatProperty request
                            \<and> PropertyLength request = 12) calls)"
  using unpackSimpleType_pending [of windows sample_record sample_info "sample_properties 2"
          None "sample_consumer\<lparr>vfield_length := Some 0\<rparr>" 0]
        unpackSimpleType_pending [of windows payload_record sample_info "sample_properties 2"
          None "sample_consumer\<lparr>vfield_length := Some 12\<rparr>" 12]
  by (simp add: getMapInfo_windows getPropertyLength_sample sample_simps payload_record_simps
        rel_ptr_to_str_def sample_consumer_def)

text \<open>
  The recovery in general. When the formatter's last status for a scalar field is
  \<^verbatim>\<open>ERROR_EVT_INVALID_EVENT_DATA\<close>, the recovery copies exactly the remaining bytes into a
  buffer that ends with one zero wide character, reports the remaining length as consumed
  (it fits the 16 bits of \<^verbatim>\<open>c_ushort\<close>), and the decoder advances the read offset to the end
  of the payload. A value for the field is returned if the converter of the field's output
  type, when the table has one, returns on the recovered bytes.
\<close>

theorem unpackSimpleType_fragment:
  assumes map: "getMapInfo w record info event_property = Inr (map_info, True)"
    and len: "getPropertyLength w record info event_property = Inr (Some declared)"
    and present: "\<not> (declared = 0 \<and> vfield_length self = Some 0)"
    and eff: "property_length =
                (if declared = 0 then (case vfield_length self of None \<Rightarrow> 0 | Some n \<Rightarrow> n)
                 else declared)"
    and base: "UserData record = Some base"
    and remaining: "index self < unat (UserDataLength record)"
                   "remaining = unat (UserDataLength record) - index self"
    and invalid: "fst (formatProperty w info map_info
                    \<lparr>PointerSize = (if Header_Flags record AND EVENT_HEADER_FLAG_32_BIT_HEADER w \<noteq> 0
                                     then 4 else 8),
                     PropertyInType = InType event_property,
                     PropertyOutType = OutType event_property,
                     PropertyLength = nat (property_length mod 65536),
                     UserDataLength_arg = remaining,
                     UserData_arg = base + index self, BufferSize = 0, Buffer = False\<rparr>)
                  = ERROR_EVT_INVALID_EVENT_DATA w"
    and distinct: "ERROR_EVT_INVALID_EVENT_DATA w \<noteq> ERROR_SUCCESS w"
  shows "handleEvtInvalidEvtData w (base + index self) remaining
           = (of_nat remaining,
              c_char_Array (map (\<lambda>k. memory w (base + index self + k)) [0..<remaining] @ [0, 0]))
         \<and> unat (of_nat remaining :: 16 word) = remaining
         \<and> index (fst (snd (unpackSimpleType w record info event_property self)))
             = index self + remaining
         \<and> index (fst (snd (unpackSimpleType w record info event_property self)))
             = unat (UserDataLength record)
         \<and> ((\<forall>converter. TDH_CONVERTER_LOOKUP w (OutType event_property) = Some converter
                \<longrightarrow> (\<exists>converted. converter (formatted_value (snd (handleEvtInvalidEvtData w
                           (base + index self) remaining))) = Inr converted))
            \<longrightarrow> (\<exists>val. fst (unpackSimpleType w record info event_property self)
                         = Inr [(rel_ptr_to_str info (NameOffset event_property), val)]))"
proof -
  let ?data = "formatted_value (snd (handleEvtInvalidEvtData w (base + index self) remaining))"
  let ?name = "rel_ptr_to_str info (NameOffset event_property)"
  have copy: "handleEvtInvalidEvtData w (base + index self) remaining
           = (of_nat remaining,
              c_char_Array (map (\<lambda>k. memory w (base + index self + k)) [0..<remaining] @ [0, 0]))"
    by (rule handleEvtInvalidEvtData_eq)
  have consumed: "unat (of_nat remaining :: 16 word) = remaining"
    unfolding remaining(2) by (rule remaining_ushort)
  have total: "index self + remaining = unat (UserDataLength record)"
    using remaining by simp
  have "\<exists>self1 calls.
           formatSimpleType w record info event_property map_info
             (if Header_Flags record AND EVENT_HEADER_FLAG_32_BIT_HEADER w \<noteq> 0 then 4 else 8)
             ?name property_length self
           = (case (case TDH_CONVERTER_LOOKUP w (OutType event_property) of
                      None \<Rightarrow> Inr (formatted_value (snd (handleEvtInvalidEvtData w
                                 (base + index self) (unat (UserDataLength record) - index self))))
                    | Some converter \<Rightarrow>
                        converter (formatted_value (snd (handleEvtInvalidEvtData w
                          (base + index self) (unat (UserDataLength record) - index self))))) of
                Inl e \<Rightarrow> Inl e
              | Inr val \<Rightarrow> Inr [(?name, val)],
              self1, calls)
           \<and> index self1 = unat (UserDataLength record)"
    using base remaining(1) invalid distinct
    unfolding remaining(2) by (rule formatSimpleType_fragment)
  then obtain self1 calls where decode:
    "unpackSimpleType w record info event_property self
       = (case (case TDH_CONVERTER_LOOKUP w (OutType event_property) of
                  None \<Rightarrow> Inr ?data | Some converter \<Rightarrow> converter ?data) of
            Inl e \<Rightarrow> Inl e
          | Inr val \<Rightarrow> Inr [(?name, val)],
          self1, calls)"
    and cursor: "index self1 = unat (UserDataLength record)"
    unfolding unpackSimpleType_eq_format [OF map len present eff] remaining(2) by blast
  have advanced: "index (fst (snd (unpackSimpleType w record info event_property self)))
                    = unat (UserDataLength record)"
    unfolding decode using cursor by simp
  have produced: "\<exists>val. fst (unpackSimpleType w record info event_property self)
                         = Inr [(?name, val)]"
    if converts: "\<forall>converter. TDH_CONVERTER_LOOKUP w (OutType event_property) = Some converter
                    \<longrightarrow> (\<exists>converted. converter ?data = Inr converted)"
  proof (cases "TDH_CONVERTER_LOOKUP w (OutType event_property)")
    case None
    then show ?thesis unfolding decode by simp
  next
    case (Some converter)
    with converts obtain converted where "converter ?data = Inr converted" by blast
    with Some show ?thesis unfolding decode by simp
  qed
  from copy consumed advanced total produced show ?thesis by simp
qed

theorem unpackSimpleType_fragment_example:
  "fst (formatProperty windows sample_info None
          \<lparr>PointerSize = 8, PropertyInType = 4, PropertyOutType = 0, PropertyLength = 8,
           UserDataLength_arg = 3, UserData_arg = 2000, BufferSize = 0, Buffer = False\<rparr>)
     = ERROR_EVT_INVALID_EVENT_DATA windows
   \<and> handleEvtInvalidEvtData windows 2000 3 = (3, c_char_Array [0x31, 0x31, 0x31, 0, 0])
   \<and> unat (3 :: 16 word) = 3
   \<and> index (fst (snd (unpackSimpleType windows (payload_record\<lparr>UserDataLength := 3\<rparr>)
                          sample_info (sample_property\<lparr>epi_u3_length := 8\<rparr>) sample_consumer)))
       = 3
   \<and> (\<exists>val. fst (unpackSimpleType windows (payload_record\<lparr>UserDataLength := 3\<rparr>)
                     sample_info (sample_property\<lparr>epi_u3_length := 8\<rparr>) sample_consumer)
              = Inr [(''Data'', val)])"
proof -
  let ?event = "payload_record\<lparr>UserDataLength := 3\<rparr>"
  let ?property = "sample_property\<lparr>epi_u3_length := 8\<rparr>"
  have invalid: "fst (formatProperty windows sample_info None
          \<lparr>PointerSize = 8, PropertyInType = 4, PropertyOutType = 0, PropertyLength = 8,
           UserDataLength_arg = 3, UserData_arg = 2000, BufferSize = 0, Buffer = False\<rparr>)
     = ERROR_EVT_INVALID_EVENT_DATA windows"
    by (simp add: formatProperty_def windows_simps sample_format_def)
  have converts: "\<forall>converter. TDH_CONVERTER_LOOKUP windows (OutType ?property) = Some converter
          \<longrightarrow> (\<exists>converted. converter (formatted_value (snd (handleEvtInvalidEvtData windows
                 (2000 + index sample_consumer) 3))) = Inr converted)"
    by (simp add: windows_simps)
  have name: "rel_ptr_to_str sample_info (NameOffset ?property) = ''Data''"
    by (simp add: rel_ptr_to_str_def sample_info_simps sample_property_def sample_strings_def)
  have "getMapInfo windows ?event sample_info ?property = Inr (None, True)"
    by (rule getMapInfo_windows)
  moreover have "getPropertyLength windows ?event sample_info ?property = Inr (Some 8)"
    by (simp add: getPropertyLength_sample sample_property_def)
  moreover have "\<not> ((8::int) = 0 \<and> vfield_length sample_consumer = Some 0)"
    by simp
  moreover have "(8::int) = (if (8::int) = 0
                       then (case vfield_length sample_consumer of None \<Rightarrow> 0 | Some n \<Rightarrow> n)
                       else 8)"
    by simp
  moreover have "UserData ?event = Some 2000"
    by (rule fragment_record_simps)
  moreover have "index sample_consumer < unat (UserDataLength ?event)"
    by (simp add: fragment_record_simps sample_consumer_def)
  moreover have "(3::nat) = unat (UserDataLength ?event) - index sample_consumer"
    by (simp add: fragment_record_simps sample_consumer_def)
  moreover have "fst (formatProperty windows sample_info None
      \<lparr>PointerSize = (if Header_Flags ?event
                           AND EVENT_HEADER_FLAG_32_BIT_HEADER windows \<noteq> 0 then 4 else 8),
       PropertyInType = InType ?property,
       PropertyOutType = OutType ?property,
       PropertyLength = nat (8 mod 65536), UserDataLength_arg = 3,
       UserData_arg = 2000 + index sample_consumer, BufferSize = 0, Buffer = False\<rparr>)
     = ERROR_EVT_INVALID_EVENT_DATA windows"
    using invalid by (simp add: fragment_record_simps windows_simps sample_property_def
                        sample_consumer_def)
  moreover have "ERROR_EVT_INVALID_EVENT_DATA windows \<noteq> ERROR_SUCCESS windows"
    by (simp add: windows_simps)
  ultimately have recovery:
    "handleEvtInvalidEvtData windows (2000 + index sample_consumer) 3
       = (of_nat 3,
          c_char_Array (map (\<lambda>k. memory windows (2000 + index sample_consumer + k)) [0..<3]
                          @ [0, 0]))
     \<and> unat (of_nat 3 :: 16 word) = 3
     \<and> index (fst (snd (unpackSimpleType windows ?event sample_info ?property sample_consumer)))
         = index sample_consumer + 3
     \<and> index (fst (snd (unpackSimpleType windows ?event sample_info ?property sample_consumer)))
         = unat (UserDataLength ?event)
     \<and> ((\<forall>converter. TDH_CONVERTER_LOOKUP windows (OutType ?property) = Some converter
            \<longrightarrow> (\<exists>converted. converter (formatted_value (snd (handleEvtInvalidEvtData windows
                       (2000 + index sample_consumer) 3))) = Inr converted))
        \<longrightarrow> (\<exists>val. fst (unpackSimpleType windows ?event sample_info ?property sample_consumer)
                     = Inr [(rel_ptr_to_str sample_info (NameOffset ?property), val)]))"
    by (rule unpackSimpleType_fragment)
  from recovery have cursor:
    "index (fst (snd (unpackSimpleType windows ?event sample_info ?property sample_consumer)))
       = 3"
    by (simp add: sample_consumer_def)
  from recovery converts have "\<exists>val. fst (unpackSimpleType windows ?event sample_info ?property
                                          sample_consumer)
                     = Inr [(rel_ptr_to_str sample_info (NameOffset ?property), val)]"
    by blast
  then have produced: "\<exists>val. fst (unpackSimpleType windows ?event sample_info ?property
                                          sample_consumer) = Inr [(''Data'', val)]"
    unfolding name .
  have "unat (3 :: 16 word) = 3" by simp
  with invalid handleEvtInvalidEvtData_sample cursor produced show ?thesis by blast
qed

text \<open>
  Claim C6, at a field of output type 8 with the converter \<^verbatim>\<open>int\<close>, declared length 4, and
  three payload bytes remaining, the first of them zero. The formatter reports invalid
  event data, the recovery copies the three bytes and advances the read offset past them,
  and the value of the recovered buffer, the empty bytes object, goes to the converter,
  which raises ValueError: the decode raises and produces no value for the field.
\<close>

theorem unpackSimpleType_fragment_raises:
  "fst (formatProperty converting_windows sample_info None
          \<lparr>PointerSize = 8, PropertyInType = 4, PropertyOutType = 8, PropertyLength = 4,
           UserDataLength_arg = 3, UserData_arg = 1000, BufferSize = 0, Buffer = False\<rparr>)
     = ERROR_EVT_INVALID_EVENT_DATA converting_windows
   \<and> handleEvtInvalidEvtData converting_windows 1000 3
     = (3, c_char_Array [0, 0x31, 0x31, 0, 0])
   \<and> unpackSimpleType converting_windows (sample_record\<lparr>UserDataLength := 3\<rparr>) sample_info
       (sample_property\<lparr>OutType := 8, epi_u3_length := 4\<rparr>) sample_consumer
     = (Inl ValueError, sample_consumer\<lparr>index := 3\<rparr>,
        [FormatProperty \<lparr>PointerSize = 8, PropertyInType = 4, PropertyOutType = 8,
           PropertyLength = 4, UserDataLength_arg = 3, UserData_arg = 1000,
           BufferSize = 0, Buffer = False\<rparr>])"
proof -
  have upt: "[0..<3] = [0, 1, 2::nat]" by (simp add: upt_rec)
  have recovered: "handleEvtInvalidEvtData converting_windows 1000 3
                     = (3, c_char_Array [0, 0x31, 0x31, 0, 0])"
    by (simp add: handleEvtInvalidEvtData_eq converting_windows_simps sample_memory_def upt)
  have invalid: "fst (formatProperty converting_windows sample_info None
          \<lparr>PointerSize = 8, PropertyInType = 4, PropertyOutType = 8, PropertyLength = 4,
           UserDataLength_arg = 3, UserData_arg = 1000, BufferSize = 0, Buffer = False\<rparr>)
     = ERROR_EVT_INVALID_EVENT_DATA converting_windows"
    by (simp add: formatProperty_def converting_windows_simps sample_format_def)
  let ?event = "sample_record\<lparr>UserDataLength := 3\<rparr>"
  let ?property = "sample_property\<lparr>OutType := 8, epi_u3_length := 4\<rparr>"
  have map_info: "getMapInfo converting_windows ?event sample_info ?property = Inr (None, True)"
    by (simp add: getMapInfo_def converting_windows_simps)
  have len: "getPropertyLength converting_windows ?event sample_info ?property = Inr (Some 4)"
    by (simp add: getPropertyLength_def Let_def converting_windows_simps sample_property_def)
  have fields:
    "UserData ?event = Some 1000" "UserDataLength ?event = 3" "Header_Flags ?event = 64"
    "NameOffset ?property = 100" "InType ?property = 4" "OutType ?property = 8"
    by (simp_all add: sample_record_def sample_property_def)
  have rejects: "int_converter (PyBytes []) = Inl ValueError"
    by (simp add: int_converter_def int_of_string_def ascii_isspace_def)
  have decode: "unpackSimpleType converting_windows ?event sample_info ?property sample_consumer
     = (Inl ValueError, sample_consumer\<lparr>index := 3\<rparr>,
        [FormatProperty \<lparr>PointerSize = 8, PropertyInType = 4, PropertyOutType = 8,
           PropertyLength = 4, UserDataLength_arg = 3, UserData_arg = 1000,
           BufferSize = 0, Buffer = False\<rparr>])"
    by (simp add: unpackSimpleType_def formatSimpleType_def formatProperty_def map_info len
          fields converting_windows_simps sample_info_simps sample_strings_def
          sample_format_def Let_def sample_consumer_def rel_ptr_to_str_def
          endswith_length recovered rejects)
  from invalid recovered decode show ?thesis by simp
qed

text \<open>
  Claim C2, at a structure field of three elements with two members each: the first scalar
  decode succeeds and the unpacking of its one-entry dict raises ValueError, so no entry is
  ever merged.
\<close>

theorem unpackComplexType_raises:
  "unpackComplexType windows payload_record sample_info struct_property sample_consumer
     = (Inl ValueError, sample_consumer\<lparr>index := 1, vfield_length := Some 12\<rparr>,
        [FormatProperty \<lparr>PointerSize = 8, PropertyInType = 4, PropertyOutType = 0,
           PropertyLength = 1, UserDataLength_arg = 20, UserData_arg = 2000,
           BufferSize = 0, Buffer = False\<rparr>,
         FormatProperty \<lparr>PointerSize = 8, PropertyInType = 4, PropertyOutType = 0,
           PropertyLength = 1, UserDataLength_arg = 20, UserData_arg = 2000,
           BufferSize = 6, Buffer = True\<rparr>])"
  by (simp add: unpackComplexType_def getArraySize_def struct_property_def upt_rec
        unpack_pair_def
        unpackSimpleType_def formatSimpleType_def formatProperty_def getMapInfo_windows
        getPropertyLength_sample sample_simps payload_record_simps Let_def sample_consumer_def
        rel_ptr_to_str_def endswith_length try_int_samples)

text \<open>
  Claim C3, at a field of resolved length 0 decoded with the pending length 12: the
  12 is used as the property length, and it is still the pending length afterwards.
\<close>

theorem unpackSimpleType_pending_stays:
  "unpackSimpleType windows payload_record sample_info (sample_properties 2)
       (sample_consumer\<lparr>vfield_length := Some 12\<rparr>)
     = (Inr [(''Name'', PyStr ''12'')],
        sample_consumer\<lparr>index := 12, vfield_length := Some 12\<rparr>,
        [FormatProperty \<lparr>PointerSize = 8, PropertyInType = 4, PropertyOutType = 0,
           PropertyLength = 12, UserDataLength_arg = 20, UserData_arg = 2000,
           BufferSize = 0, Buffer = False\<rparr>,
         FormatProperty \<lparr>PointerSize = 8, PropertyInType = 4, PropertyOutType = 0,
           PropertyLength = 12, UserDataLength_arg = 20, UserData_arg = 2000,
           BufferSize = 6, Buffer = True\<rparr>])"
  by (simp add: unpackSimpleType_def formatSimpleType_def formatProperty_def getMapInfo_windows
        getPropertyLength_sample sample_simps payload_record_simps Let_def sample_consumer_def
        rel_ptr_to_str_def endswith_length)

end
